theory Spec2Isabelle
  imports Main "HOL-Library.Char_ord" "HOL-Library.List_Lexorder"
begin

section \<open>The telegraf agent (agent.go): data model\<close>

text \<open>
  Conventions of the embedding.
  \<^item> A Go \<open>error\<close> is its message; \<open>nil\<close> is \<open>None\<close>.
  \<^item> \<open>time.Duration\<close> is a number of nanoseconds. Go's \<open>int\<close> and \<open>int64\<close> are
    modelled by \<open>int\<close>: the only arithmetic the agent does on them is \<open>retry++\<close> and
    \<open>counter++\<close>, starting at 0 and bounded by \<open>FlushRetries\<close> and by the number of plugins,
    so no operation can wrap.
  \<^item> Every observable action (a call into a sink or a collector, a log line, a sleep, a
    spawned goroutine) is an \<open>event\<close>; a function returns the list of events it performs, in
    order, beside its result.
  \<^item> Sinks and collectors are interface values. Their behaviour is an oracle: the result of
    the k-th call (counted from 0) that the modelled function makes on them.
  \<^item> A \<open>select\<close> is resolved by the environment: a function that loops on a \<open>select\<close> takes
    the list of the cases the environment picks. When the list is used up the goroutine is
    left waiting (\<open>Blocked\<close>).
\<close>

type_synonym error = string

type_synonym Duration = int

definition Millisecond :: Duration where
  "Millisecond = 1000000"

definition Second :: Duration where
  "Second = 1000 * Millisecond"

text \<open>
  \<open>client.Point\<close> belongs to the InfluxDB client library. The agent only passes points on
  and counts them; the name and the tags are kept, fields and timestamp are left out.
\<close>

record Point =
  pt_name :: string
  pt_tags :: "string \<rightharpoonup> string"

text \<open>The sink interface \<open>outputs.Output\<close>: \<open>Connect\<close>, \<open>Write\<close>, \<open>Close\<close>.\<close>

record Output =
  out_Connect :: "nat \<Rightarrow> error option"
  out_Write :: "nat \<Rightarrow> error option"
  out_Close :: "error option"

record runningOutput =
  ro_name :: string
  ro_output :: Output

text \<open>
  \<open>ConfiguredPlugin\<close> is declared in config.go; agent.go reads its \<open>Interval\<close> only.
\<close>

record ConfiguredPlugin =
  cfg_Interval :: Duration

text \<open>
  The collector interface \<open>plugins.Plugin\<close>: \<open>Gather\<close>. \<open>plg_Service\<close> is \<open>None\<close> for a
  collector that is not a \<open>plugins.ServicePlugin\<close>, and \<open>Some r\<close> for one whose \<open>Start()\<close>
  returns \<open>r\<close>.
\<close>

record Plugin =
  plg_Gather :: "nat \<Rightarrow> error option"
  plg_Service :: "error option option"

record runningPlugin =
  rp_name :: string
  rp_plugin :: Plugin
  rp_config :: ConfiguredPlugin

record Agent =
  Interval :: Duration
  FlushInterval :: Duration
  FlushRetries :: int
  UTC :: bool
  Precision :: string
  Debug :: bool
  Hostname :: string
  Tags :: "string \<rightharpoonup> string"
  outputs :: "runningOutput list"
  plugins :: "runningPlugin list"

text \<open>
  The configuration layer (config.go) is not part of agent.go. What agent.go calls of it
  is taken as given: the declared names and the three \<open>Apply\<close> operations, each of which
  may fail.
\<close>

record Config =
  OutputsDeclared :: "string list"
  PluginsDeclared :: "string list"
  ApplyAgent :: "Agent \<Rightarrow> error + Agent"
  ApplyOutput :: "string \<Rightarrow> Output \<Rightarrow> error + Output"
  ApplyPlugin :: "string \<Rightarrow> Plugin \<Rightarrow> error + ConfiguredPlugin"

subsection \<open>The accumulator\<close>

text \<open>
  Modelled from the spec: accumulator.go (\<open>NewAccumulator\<close>, \<open>SetDebug\<close>, \<open>SetPrefix\<close>,
  \<open>SetDefaultTags\<close> and the merge of the default tags into a point) is missing from the
  sources. The accumulator is "the object each collector is handed to publish a point"; it
  has a debug flag, and "prefix and default-tag setters called by the supervisor before
  handing the accumulator over". \<open>NewAccumulator\<close> receives the plugin configuration and
  the point channel only, so a new accumulator has no default tag.
\<close>

record accumulator =
  acc_plugin :: ConfiguredPlugin
  acc_debug :: bool
  acc_prefix :: string
  acc_defaultTags :: "string \<rightharpoonup> string"

definition NewAccumulator :: "ConfiguredPlugin \<Rightarrow> accumulator" where
  "NewAccumulator cfg =
     \<lparr>acc_plugin = cfg, acc_debug = False, acc_prefix = [], acc_defaultTags = Map.empty\<rparr>"

definition SetDebug :: "bool \<Rightarrow> accumulator \<Rightarrow> accumulator" where
  "SetDebug d acc = acc\<lparr>acc_debug := d\<rparr>"

definition SetPrefix :: "string \<Rightarrow> accumulator \<Rightarrow> accumulator" where
  "SetPrefix pre acc = acc\<lparr>acc_prefix := pre\<rparr>"

definition SetDefaultTags :: "(string \<rightharpoonup> string) \<Rightarrow> accumulator \<Rightarrow> accumulator" where
  "SetDefaultTags tags acc = acc\<lparr>acc_defaultTags := tags\<rparr>"

text \<open>
  Modelled from the spec: the accumulator "merges default tags (including \<open>host\<close>) into the
  point's tag set without overwriting collector-supplied keys", and stamps the name
  \<open><prefix><measurement>\<close>.
\<close>

definition acc_point :: "accumulator \<Rightarrow> string \<Rightarrow> (string \<rightharpoonup> string) \<Rightarrow> Point" where
  "acc_point acc measurement tags =
     \<lparr>pt_name = acc_prefix acc @ measurement, pt_tags = acc_defaultTags acc ++ tags\<rparr>"

subsection \<open>Events and outcomes\<close>

datatype fmtarg =
    ArgStr string
  | ArgInt int
  | ArgDur Duration
  | ArgElapsed

datatype task =
    FlusherTask
  | GatherSeparateTask string
  | WriteOutputTask string "Point list"

text \<open>
  \<open>Log\<close> is \<open>log.Printf\<close>, \<open>LogLn\<close> is \<open>log.Println\<close>, \<open>Print\<close> is \<open>fmt.Printf\<close>, each with its
  format string and arguments; \<open>ArgElapsed\<close> stands for a duration measured with
  \<open>time.Since\<close>. \<open>Go\<close> is a \<open>go\<close> statement, \<open>WaitAll\<close> the call of \<open>wg.Wait()\<close>.
\<close>

datatype event =
    Log string "fmtarg list"
  | LogLn "fmtarg list"
  | Print string "fmtarg list"
  | Sleep Duration
  | ConnectCall string
  | CloseCall string
  | WriteCall string "Point list"
  | GatherCall string accumulator
  | StartCall string
  | StopCall string
  | Go task
  | WaitAll
  | CloseShutdown

datatype select = Shutdown | Tick

datatype fselect = FShutdown | FTick | FPoint Point

datatype outcome = Returned "error option" | Blocked | Panicked string

text \<open>\<open>time.NewTicker\<close> panics on a duration that is not positive.\<close>

definition ticker_panic :: string where
  "ticker_panic = ''non-positive interval for NewTicker''"

section \<open>The agent's operations\<close>

subsection \<open>NewAgent\<close>

text \<open>
  \<open>os_Hostname\<close> is what \<open>os.Hostname()\<close> would return. The Go map \<open>agent.Tags\<close> is never
  \<open>nil\<close> here: \<open>NewAgent\<close> makes it, and \<open>ApplyAgent\<close> is taken to keep it a map.
\<close>

definition default_Agent :: Agent where
  "default_Agent =
     \<lparr>Interval = 10 * Second, FlushInterval = 10 * Second, FlushRetries = 2, UTC = True,
      Precision = ''s'', Debug = False, Hostname = [], Tags = Map.empty,
      outputs = [], plugins = []\<rparr>"

definition NewAgent :: "Config \<Rightarrow> error + string \<Rightarrow> error + Agent" where
  "NewAgent config os_Hostname =
     (case ApplyAgent config default_Agent of
        Inl err \<Rightarrow> Inl err
      | Inr agent \<Rightarrow>
          if Hostname agent = [] then
            (case os_Hostname of
               Inl err \<Rightarrow> Inl err
             | Inr hostname \<Rightarrow>
                 Inr (agent\<lparr>Hostname := hostname, Tags := (Tags agent)(''host'' \<mapsto> hostname)\<rparr>))
          else Inr (agent\<lparr>Tags := (Tags agent)(''host'' \<mapsto> Hostname agent)\<rparr>))"

subsection \<open>Connect and Close\<close>

fun Connect_loop :: "bool \<Rightarrow> runningOutput list \<Rightarrow> event list \<times> error option" where
  "Connect_loop dbg [] = ([], None)"
| "Connect_loop dbg (ro # ros) =
     (let attempting =
            (if dbg then [Log ''Attempting connection to output: %s\<newline>'' [ArgStr (ro_name ro)]]
             else []);
          connected =
            (if dbg then [Log ''Successfully connected to output: %s\<newline>'' [ArgStr (ro_name ro)]]
             else [])
      in case out_Connect (ro_output ro) 0 of
           None \<Rightarrow>
             (let (tr, r) = Connect_loop dbg ros
              in (attempting @ [ConnectCall (ro_name ro)] @ connected @ tr, r))
         | Some err \<Rightarrow>
             (let retried = attempting @
                    [ConnectCall (ro_name ro),
                     Log ''Failed to connect to output %s, retrying in 15s\<newline>''
                       [ArgStr (ro_name ro)],
                     Sleep (15 * Second),
                     ConnectCall (ro_name ro)]
              in case out_Connect (ro_output ro) 1 of
                   Some err' \<Rightarrow> (retried, Some err')
                 | None \<Rightarrow>
                     (let (tr, r) = Connect_loop dbg ros
                      in (retried @ connected @ tr, r))))"

definition Connect :: "Agent \<Rightarrow> event list \<times> error option" where
  "Connect a = Connect_loop (Debug a) (outputs a)"

fun Close_loop :: "runningOutput list \<Rightarrow> error option \<Rightarrow> event list \<times> error option" where
  "Close_loop [] err = ([], err)"
| "Close_loop (ro # ros) err =
     (let err' = out_Close (ro_output ro);
          (tr, r) = Close_loop ros err'
      in (CloseCall (ro_name ro) # tr, r))"

definition Close :: "Agent \<Rightarrow> event list \<times> error option" where
  "Close a = Close_loop (outputs a) None"

subsection \<open>LoadOutputs and LoadPlugins\<close>

text \<open>
  Modelled from the spec: the helper \<open>sliceContains\<close> is not in agent.go. A name is loaded
  when it "matches the filter", read as: it is an element of the filter list.
\<close>

fun sliceContains :: "string \<Rightarrow> string list \<Rightarrow> bool" where
  "sliceContains name [] = False"
| "sliceContains name (b # list) = (if b = name then True else sliceContains name list)"

text \<open>
  The registries \<open>outputs.Outputs\<close> and \<open>plugins.Plugins\<close> map a name to a creator; they
  are given as maps from a name to the instance its creator returns. The agent is a
  pointer in Go, so what has been appended to it stays appended when loading fails: the
  agent and the log lines are returned in every case.
\<close>

text \<open>The two errors made with \<open>fmt.Errorf\<close>.\<close>

definition undefined_output :: "string \<Rightarrow> error" where
  "undefined_output name = ''Undefined but requested output: '' @ name"

definition undefined_plugin :: "string \<Rightarrow> error" where
  "undefined_plugin name = ''Undefined but requested plugin: '' @ name"

fun LoadOutputs_loop ::
  "string list \<Rightarrow> Config \<Rightarrow> (string \<rightharpoonup> Output) \<Rightarrow> string list \<Rightarrow> Agent \<Rightarrow> string list \<Rightarrow>
     event list \<Rightarrow> (Agent \<times> event list) \<times> (error + string list)" where
  "LoadOutputs_loop filters config Outputs [] a names tr = ((a, tr), Inr (sort names))"
| "LoadOutputs_loop filters config Outputs (name # rest) a names tr =
     (case Outputs name of
        None \<Rightarrow> ((a, tr), Inl (undefined_output name))
      | Some creator \<Rightarrow>
          if sliceContains name filters \<or> length filters = 0 then
            (let tr' = tr @ (if Debug a then [LogLn [ArgStr ''Output Enabled: '', ArgStr name]]
                             else [])
             in case ApplyOutput config name creator of
                  Inl err \<Rightarrow> ((a, tr'), Inl err)
                | Inr out \<Rightarrow>
                    LoadOutputs_loop filters config Outputs rest
                      (a\<lparr>outputs := outputs a @ [\<lparr>ro_name = name, ro_output = out\<rparr>]\<rparr>)
                      (names @ [name]) tr')
          else LoadOutputs_loop filters config Outputs rest a names tr)"

definition LoadOutputs ::
  "string list \<Rightarrow> Config \<Rightarrow> (string \<rightharpoonup> Output) \<Rightarrow> Agent \<Rightarrow>
     (Agent \<times> event list) \<times> (error + string list)" where
  "LoadOutputs filters config Outputs a =
     LoadOutputs_loop filters config Outputs (OutputsDeclared config) a [] []"

fun LoadPlugins_loop ::
  "string list \<Rightarrow> Config \<Rightarrow> (string \<rightharpoonup> Plugin) \<Rightarrow> string list \<Rightarrow> Agent \<Rightarrow> string list \<Rightarrow>
     Agent \<times> (error + string list)" where
  "LoadPlugins_loop filters config Plugins [] a names = (a, Inr (sort names))"
| "LoadPlugins_loop filters config Plugins (name # rest) a names =
     (case Plugins name of
        None \<Rightarrow> (a, Inl (undefined_plugin name))
      | Some creator \<Rightarrow>
          if sliceContains name filters \<or> length filters = 0 then
            (case ApplyPlugin config name creator of
               Inl err \<Rightarrow> (a, Inl err)
             | Inr cfg \<Rightarrow>
                 LoadPlugins_loop filters config Plugins rest
                   (a\<lparr>plugins := plugins a @
                        [\<lparr>rp_name = name, rp_plugin = creator, rp_config = cfg\<rparr>]\<rparr>)
                   (names @ [name]))
          else LoadPlugins_loop filters config Plugins rest a names)"

definition LoadPlugins ::
  "string list \<Rightarrow> Config \<Rightarrow> (string \<rightharpoonup> Plugin) \<Rightarrow> Agent \<Rightarrow> Agent \<times> (error + string list)" where
  "LoadPlugins filters config Plugins a =
     LoadPlugins_loop filters config Plugins (PluginsDeclared config) a []"

subsection \<open>Gathering\<close>

text \<open>
  The body of the goroutine that \<open>gatherParallel\<close> starts for one plugin, and the same
  lines at the head of the loop of \<open>gatherSeparate\<close>: a fresh accumulator, the three
  setters, \<open>Gather\<close>, and a log line when \<open>Gather\<close> returns an error. \<open>k\<close> is the number of
  earlier \<open>Gather\<close> calls on the plugin.
\<close>

definition gather_acc :: "Agent \<Rightarrow> runningPlugin \<Rightarrow> accumulator" where
  "gather_acc a p =
     SetDefaultTags (Tags a)
       (SetPrefix (rp_name p @ ''_'') (SetDebug (Debug a) (NewAccumulator (rp_config p))))"

definition gather_once :: "Agent \<Rightarrow> runningPlugin \<Rightarrow> nat \<Rightarrow> event list" where
  "gather_once a p k =
     GatherCall (rp_name p) (gather_acc a p) #
     (case plg_Gather (rp_plugin p) k of
        None \<Rightarrow> []
      | Some err \<Rightarrow> [Log ''Error in plugin [%s]: %s'' [ArgStr (rp_name p), ArgStr err]])"

text \<open>
  \<open>gatherParallel\<close> starts one goroutine per selected plugin and joins them with
  \<open>wg.Wait()\<close> before it logs and returns. The goroutines do not communicate; the model runs
  them to completion one after the other, in the order of the plugin list, and puts all
  their events before the summary line.
\<close>

fun gatherParallel_loop ::
  "Agent \<Rightarrow> nat \<Rightarrow> runningPlugin list \<Rightarrow> int \<Rightarrow> event list \<times> int" where
  "gatherParallel_loop a k [] counter = ([], counter)"
| "gatherParallel_loop a k (p # ps) counter =
     (if cfg_Interval (rp_config p) \<noteq> 0 then gatherParallel_loop a k ps counter
      else (let (tr, c) = gatherParallel_loop a k ps (counter + 1)
            in (gather_once a p k @ tr, c)))"

definition gatherParallel :: "Agent \<Rightarrow> nat \<Rightarrow> event list \<times> error option" where
  "gatherParallel a k =
     (let (tr, counter) = gatherParallel_loop a k (plugins a) 0
      in (tr @ [Log ''Gathered metrics, (%s interval), from %d plugins in %s\<newline>''
                  [ArgDur (Interval a), ArgInt counter, ArgElapsed]],
          None))"

fun gatherSeparate_loop ::
  "Agent \<Rightarrow> runningPlugin \<Rightarrow> select list \<Rightarrow> nat \<Rightarrow> event list \<times> outcome" where
  "gatherSeparate_loop a p sel k =
     (let outerr = None;
          ev = gather_once a p k @
               [Log ''Gathered metrics, (separate %s interval), from %s in %s\<newline>''
                  [ArgDur (cfg_Interval (rp_config p)), ArgStr (rp_name p), ArgElapsed]]
      in if outerr \<noteq> None then (ev, Returned outerr)
         else (case sel of
                 [] \<Rightarrow> (ev, Blocked)
               | Shutdown # rest \<Rightarrow> (ev, Returned None)
               | Tick # rest \<Rightarrow>
                   (let (tr, r) = gatherSeparate_loop a p rest (Suc k) in (ev @ tr, r))))"

definition gatherSeparate ::
  "Agent \<Rightarrow> runningPlugin \<Rightarrow> select list \<Rightarrow> event list \<times> outcome" where
  "gatherSeparate a p sel =
     (if cfg_Interval (rp_config p) \<le> 0 then ([], Panicked ticker_panic)
      else gatherSeparate_loop a p sel 0)"

subsection \<open>Test\<close>

text \<open>
  \<open>Test\<close> starts the flusher, gathers once from every plugin (twice from \<open>cpu\<close>) and
  closes the shutdown channel when it returns. The trace is that of the goroutine of
  \<open>Test\<close>; the flusher is in it by its \<open>go\<close> statement only, so what the flusher does
  (its flushes, and its panic when the flush interval is not positive) is not part of it.
\<close>

definition test_acc :: "runningPlugin \<Rightarrow> accumulator" where
  "test_acc p = SetPrefix (rp_name p @ ''_'') (SetDebug True (NewAccumulator (rp_config p)))"

fun Test_loop :: "runningPlugin list \<Rightarrow> event list \<times> error option" where
  "Test_loop [] = ([], None)"
| "Test_loop (p # ps) =
     (let ev1 =
            Print ''* Plugin: %s, Collection 1\<newline>'' [ArgStr (rp_name p)] #
            (if cfg_Interval (rp_config p) \<noteq> 0
             then [Print ''* Internal: %s\<newline>'' [ArgDur (cfg_Interval (rp_config p))]]
             else []) @
            [GatherCall (rp_name p) (test_acc p)]
      in case plg_Gather (rp_plugin p) 0 of
           Some err \<Rightarrow> (ev1, Some err)
         | None \<Rightarrow>
             if rp_name p = ''cpu'' then
               (let ev2 = ev1 @
                      [Sleep (500 * Millisecond),
                       Print ''* Plugin: %s, Collection 2\<newline>'' [ArgStr (rp_name p)],
                       GatherCall (rp_name p) (test_acc p)]
                in case plg_Gather (rp_plugin p) 1 of
                     Some err \<Rightarrow> (ev2, Some err)
                   | None \<Rightarrow> (let (tr, r) = Test_loop ps in (ev2 @ tr, r)))
             else (let (tr, r) = Test_loop ps in (ev1 @ tr, r)))"

definition Test :: "Agent \<Rightarrow> event list \<times> error option" where
  "Test a = (let (tr, r) = Test_loop (plugins a) in (Go FlusherTask # tr @ [CloseShutdown], r))"

subsection \<open>writeOutput, flush and flusher\<close>

definition fatal_msg :: string where
  "fatal_msg = ''FATAL: Write to output [%s] failed %d times, dropping %d metrics\<newline>''"

text \<open>
  The loop of \<open>writeOutput\<close>, entered with the current value of \<open>retry\<close>. \<open>shutdown k\<close> says
  whether the shutdown channel is closed when the \<open>select\<close> after the k-th \<open>Write\<close> looks at
  it; \<open>time.Sleep\<close> cannot be interrupted.
\<close>

function writeOutput_loop ::
  "Agent \<Rightarrow> Point list \<Rightarrow> runningOutput \<Rightarrow> (nat \<Rightarrow> bool) \<Rightarrow> int \<Rightarrow> event list" where
  "writeOutput_loop a points ro shutdown retry =
     (let retries = FlushRetries a;
          err = out_Write (ro_output ro) (nat retry)
      in WriteCall (ro_name ro) points #
         (if shutdown (nat retry) then []
          else (case err of
                  None \<Rightarrow>
                    [Log ''Flushed %d metrics to output %s in %s\<newline>''
                       [ArgInt (int (length points)), ArgStr (ro_name ro), ArgElapsed]]
                | Some e \<Rightarrow>
                    if retry \<ge> retries then
                      [Log fatal_msg
                         [ArgStr (ro_name ro), ArgInt (retries + 1), ArgInt (int (length points))]]
                    else
                      Log ''Error in output [%s]: %s, retrying in %s''
                        [ArgStr (ro_name ro), ArgStr e, ArgDur (FlushInterval a)] #
                      Sleep (FlushInterval a) #
                      writeOutput_loop a points ro shutdown (retry + 1))))"
  by pat_completeness auto
termination
  by (relation "measure (\<lambda>(a, points, ro, shutdown, retry). nat (FlushRetries a - retry))") auto

definition writeOutput :: "Agent \<Rightarrow> Point list \<Rightarrow> runningOutput \<Rightarrow> (nat \<Rightarrow> bool) \<Rightarrow> event list" where
  "writeOutput a points ro shutdown = writeOutput_loop a points ro shutdown 0"

fun flush_loop :: "Point list \<Rightarrow> runningOutput list \<Rightarrow> event list" where
  "flush_loop points [] = []"
| "flush_loop points (ro # ros) = Go (WriteOutputTask (ro_name ro) points) # flush_loop points ros"

definition flush :: "Agent \<Rightarrow> Point list \<Rightarrow> event list" where
  "flush a points = (if length points = 0 then [] else flush_loop points (outputs a))"

fun flusher_loop :: "Agent \<Rightarrow> fselect list \<Rightarrow> Point list \<Rightarrow> event list \<times> outcome" where
  "flusher_loop a [] points = ([], Blocked)"
| "flusher_loop a (FShutdown # rest) points =
     (LogLn [ArgStr ''Hang on, flushing any cached points before shutdown''] # flush a points,
      Returned None)"
| "flusher_loop a (FTick # rest) points =
     (let (tr, r) = flusher_loop a rest [] in (flush a points @ tr, r))"
| "flusher_loop a (FPoint pt # rest) points = flusher_loop a rest (points @ [pt])"

definition flusher :: "Agent \<Rightarrow> fselect list \<Rightarrow> event list \<times> outcome" where
  "flusher a sel =
     (if FlushInterval a \<le> 0 then ([Sleep (Millisecond * 100)], Panicked ticker_panic)
      else (let (tr, r) = flusher_loop a sel [] in (Sleep (Millisecond * 100) # tr, r)))"

subsection \<open>Run\<close>















declare writeOutput_loop.simps [simp del]

declare gatherSeparate_loop.simps [simp del]


section \<open>Observations on traces\<close>

fun is_log :: "event \<Rightarrow> bool" where
  "is_log (Log f args) = True"
| "is_log (LogLn args) = True"
| "is_log (Print f args) = True"
| "is_log e = False"

definition actions :: "event list \<Rightarrow> event list" where
  "actions tr = filter (\<lambda>e. \<not> is_log e) tr"

fun is_write :: "event \<Rightarrow> bool" where
  "is_write (WriteCall n pts) = True"
| "is_write e = False"

definition count_writes :: "event list \<Rightarrow> nat" where
  "count_writes tr = length (filter is_write tr)"

text \<open>What a trace holds after its first \<open>Sleep\<close>.\<close>

fun after_first_sleep :: "event list \<Rightarrow> event list" where
  "after_first_sleep [] = []"
| "after_first_sleep (Sleep d # tr) = tr"
| "after_first_sleep (e # tr) = after_first_sleep tr"

text \<open>Every \<open>Sleep\<close> of a trace is directly followed by a \<open>Write\<close>.\<close>

fun sleep_then_write :: "event list \<Rightarrow> bool" where
  "sleep_then_write [] = True"
| "sleep_then_write (Sleep d # tr) =
     ((case tr of e # rest \<Rightarrow> is_write e | [] \<Rightarrow> False) \<and> sleep_then_write tr)"
| "sleep_then_write (e # tr) = sleep_then_write tr"

fun gather_name :: "event \<Rightarrow> string list" where
  "gather_name (GatherCall n acc) = [n]"
| "gather_name e = []"

definition gathered :: "event list \<Rightarrow> string list" where
  "gathered tr = concat (map gather_name tr)"

fun gather_tags :: "event \<Rightarrow> (string \<rightharpoonup> string) list" where
  "gather_tags (GatherCall n acc) = [acc_defaultTags acc]"
| "gather_tags e = []"

definition handed_tags :: "event list \<Rightarrow> (string \<rightharpoonup> string) list" where
  "handed_tags tr = concat (map gather_tags tr)"

fun separate_name :: "event \<Rightarrow> string list" where
  "separate_name (Go (GatherSeparateTask n)) = [n]"
| "separate_name e = []"

definition separately_started :: "event list \<Rightarrow> string list" where
  "separately_started tr = concat (map separate_name tr)"

fun writer_task :: "event \<Rightarrow> (string \<times> Point list) list" where
  "writer_task (Go (WriteOutputTask n pts)) = [(n, pts)]"
| "writer_task e = []"

definition writer_tasks :: "event list \<Rightarrow> (string \<times> Point list) list" where
  "writer_tasks tr = concat (map writer_task tr)"

section \<open>What the specification prescribes\<close>

text \<open>
  The events the specification prescribes for connecting one sink: one \<open>Connect\<close>, and
  after a failure a 15-second delay and one more \<open>Connect\<close>.
\<close>

definition connect_attempts :: "runningOutput \<Rightarrow> event list" where
  "connect_attempts ro =
     (case out_Connect (ro_output ro) 0 of
        None \<Rightarrow> [ConnectCall (ro_name ro)]
      | Some e \<Rightarrow> [ConnectCall (ro_name ro), Sleep (15 * Second), ConnectCall (ro_name ro)])"

definition connects :: "runningOutput \<Rightarrow> bool" where
  "connects ro =
     (out_Connect (ro_output ro) 0 = None \<or> out_Connect (ro_output ro) 1 = None)"

text \<open>One failed attempt of the writer: the \<open>Write\<close>, the error line and the sleep.\<close>

definition retry_round :: "Agent \<Rightarrow> Point list \<Rightarrow> runningOutput \<Rightarrow> error \<Rightarrow> event list" where
  "retry_round a points ro e =
     [WriteCall (ro_name ro) points,
      Log ''Error in output [%s]: %s, retrying in %s''
        [ArgStr (ro_name ro), ArgStr e, ArgDur (FlushInterval a)],
      Sleep (FlushInterval a)]"


text \<open>The declared names that loading selects: all of them when there is no filter.\<close>

definition selected :: "string list \<Rightarrow> string list \<Rightarrow> string list" where
  "selected filters declared = filter (\<lambda>n. n \<in> set filters \<or> filters = []) declared"

definition zero_interval :: "runningPlugin \<Rightarrow> bool" where
  "zero_interval p = (cfg_Interval (rp_config p) = 0)"


text \<open>The number of passes of a loop on a \<open>select\<close>: one, and one more for every tick chosen
  before the first shutdown.\<close>

definition passes :: "select list \<Rightarrow> nat" where
  "passes sel = Suc (length (takeWhile (\<lambda>s. s = Tick) sel))"

text \<open>
  A declared name loads: it is registered and, when loading selects it, the configuration
  applies to the instance.
\<close>

definition output_loads :: "string list \<Rightarrow> Config \<Rightarrow> (string \<rightharpoonup> Output) \<Rightarrow> string \<Rightarrow> bool" where
  "output_loads filters config Outputs n =
     (case Outputs n of
        None \<Rightarrow> False
      | Some creator \<Rightarrow>
          (if n \<in> set filters \<or> filters = []
           then (case ApplyOutput config n creator of Inl err \<Rightarrow> False | Inr out \<Rightarrow> True)
           else True))"

definition plugin_loads :: "string list \<Rightarrow> Config \<Rightarrow> (string \<rightharpoonup> Plugin) \<Rightarrow> string \<Rightarrow> bool" where
  "plugin_loads filters config Plugins n =
     (case Plugins n of
        None \<Rightarrow> False
      | Some creator \<Rightarrow>
          (if n \<in> set filters \<or> filters = []
           then (case ApplyPlugin config n creator of Inl err \<Rightarrow> False | Inr cfg \<Rightarrow> True)
           else True))"



text \<open>
  The line that logs an error of \<open>Gather\<close>, and the line that ends a pass of a separate
  gatherer.
\<close>

definition error_line :: "runningPlugin \<Rightarrow> error \<Rightarrow> event" where
  "error_line p err = Log ''Error in plugin [%s]: %s'' [ArgStr (rp_name p), ArgStr err]"

definition separate_summary :: "runningPlugin \<Rightarrow> event" where
  "separate_summary p =
     Log ''Gathered metrics, (separate %s interval), from %s in %s\<newline>''
       [ArgDur (cfg_Interval (rp_config p)), ArgStr (rp_name p), ArgElapsed]"

section \<open>Concrete sinks, collectors and agents\<close>

definition sink_ok :: Output where
  "sink_ok = \<lparr>out_Connect = (\<lambda>k. None), out_Write = (\<lambda>k. None), out_Close = None\<rparr>"

definition sink_down :: Output where
  "sink_down =
     \<lparr>out_Connect = (\<lambda>k. Some ''refused''), out_Write = (\<lambda>k. Some ''down''),
      out_Close = Some ''busy''\<rparr>"

definition sink_flaky :: Output where
  "sink_flaky =
     \<lparr>out_Connect = (\<lambda>k. if k = 0 then Some ''refused'' else None),
      out_Write = (\<lambda>k. if k = 0 then Some ''down'' else None), out_Close = None\<rparr>"

definition ro_ok :: runningOutput where
  "ro_ok = \<lparr>ro_name = ''influxdb'', ro_output = sink_ok\<rparr>"

definition ro_down :: runningOutput where
  "ro_down = \<lparr>ro_name = ''kafka'', ro_output = sink_down\<rparr>"

definition ro_flaky :: runningOutput where
  "ro_flaky = \<lparr>ro_name = ''opentsdb'', ro_output = sink_flaky\<rparr>"

definition collector_ok :: Plugin where
  "collector_ok = \<lparr>plg_Gather = (\<lambda>k. None), plg_Service = None\<rparr>"

definition collector_failing :: Plugin where
  "collector_failing = \<lparr>plg_Gather = (\<lambda>k. Some ''no data''), plg_Service = None\<rparr>"

definition rp_mem :: runningPlugin where
  "rp_mem = \<lparr>rp_name = ''mem'', rp_plugin = collector_ok, rp_config = \<lparr>cfg_Interval = 0\<rparr>\<rparr>"

definition rp_disk :: runningPlugin where
  "rp_disk =
     \<lparr>rp_name = ''disk'', rp_plugin = collector_failing, rp_config = \<lparr>cfg_Interval = 0\<rparr>\<rparr>"

text \<open>A collector with an interval of its own, equal to the default global interval.\<close>

definition rp_ping :: runningPlugin where
  "rp_ping =
     \<lparr>rp_name = ''ping'', rp_plugin = collector_failing,
      rp_config = \<lparr>cfg_Interval = 10 * Second\<rparr>\<rparr>"

definition box_Agent :: Agent where
  "box_Agent = default_Agent\<lparr>Hostname := ''box'', Tags := [''host'' \<mapsto> ''box'']\<rparr>"

definition pt_one :: Point where
  "pt_one = \<lparr>pt_name = ''mem_free'', pt_tags = [''host'' \<mapsto> ''box'']\<rparr>"

definition reg_outputs :: "string \<rightharpoonup> Output" where
  "reg_outputs = [''kafka'' \<mapsto> sink_down, ''influxdb'' \<mapsto> sink_ok]"

definition reg_plugins :: "string \<rightharpoonup> Plugin" where
  "reg_plugins = [''mem'' \<mapsto> collector_ok, ''cpu'' \<mapsto> collector_ok, ''disk'' \<mapsto> collector_failing]"

definition cfg_base :: Config where
  "cfg_base =
     \<lparr>OutputsDeclared = [''kafka'', ''influxdb''],
      PluginsDeclared = [''mem'', ''cpu'', ''disk''],
      ApplyAgent = (\<lambda>ag. Inr ag),
      ApplyOutput = (\<lambda>n out. Inr out),
      ApplyPlugin = (\<lambda>n p. Inr \<lparr>cfg_Interval = 0\<rparr>)\<rparr>"

text \<open>A configuration that sets the host name, and one that sets the tag \<open>host\<close> only.\<close>

definition cfg_hostname :: Config where
  "cfg_hostname = cfg_base\<lparr>ApplyAgent := (\<lambda>ag. Inr (ag\<lparr>Hostname := ''box''\<rparr>))\<rparr>"

definition cfg_host_tag :: Config where
  "cfg_host_tag =
     cfg_base\<lparr>ApplyAgent := (\<lambda>ag. Inr (ag\<lparr>Tags := [''host'' \<mapsto> ''custom'', ''dc'' \<mapsto> ''eu'']\<rparr>))\<rparr>"

text \<open>
  A configuration that declares the unregistered sink \<open>amqp\<close> after a sink whose
  configuration does not apply, and one that declares an unregistered collector.
\<close>

definition cfg_bad_url :: Config where
  "cfg_bad_url =
     cfg_base\<lparr>OutputsDeclared := [''influxdb'', ''amqp''],
              ApplyOutput := (\<lambda>n out. if n = ''influxdb'' then Inl ''bad url'' else Inr out)\<rparr>"

definition cfg_bad_interval :: Config where
  "cfg_bad_interval =
     cfg_base\<lparr>ApplyPlugin :=
       (\<lambda>n p. if n = ''cpu'' then Inl ''bad interval'' else Inr \<lparr>cfg_Interval = 0\<rparr>)\<rparr>"

definition cfg_unknown :: Config where
  "cfg_unknown =
     cfg_base\<lparr>OutputsDeclared := [''kafka'', ''amqp'', ''influxdb''],
              PluginsDeclared := [''mem'', ''gpu'']\<rparr>"





definition after_first :: "nat \<Rightarrow> bool" where
  "after_first k = (1 \<le> k)"

section \<open>Close\<close>

lemma Close_loop_trace: "fst (Close_loop ros err) = map (\<lambda>ro. CloseCall (ro_name ro)) ros"
  by (induction ros arbitrary: err) (simp_all add: case_prod_beta)

lemma Close_loop_result:
  "snd (Close_loop ros err) = (if ros = [] then err else out_Close (ro_output (last ros)))"
  by (induction ros arbitrary: err) (simp_all add: case_prod_beta)

text \<open>
  C10. \<open>Close\<close> calls \<open>Close\<close> on every configured sink, in configuration order, and
  returns the result of the last sink's \<open>Close\<close> only (\<open>nil\<close> when there is no sink): the
  error of an earlier sink is overwritten, so \<open>Close\<close> can return \<open>nil\<close> although an earlier
  sink failed to close.
\<close>

theorem Close_returns_last_error:
  "fst (Close a) = map (\<lambda>ro. CloseCall (ro_name ro)) (outputs a) \<and>
   (outputs a = [] \<longrightarrow> snd (Close a) = None) \<and>
   (outputs a \<noteq> [] \<longrightarrow> snd (Close a) = out_Close (ro_output (last (outputs a))))"
  by (simp add: Close_def Close_loop_trace Close_loop_result)

text \<open>The first sink fails to close, the last one closes: both are called, \<open>nil\<close> is returned.\<close>

theorem Close_returns_last_error_witness:
  "outputs (box_Agent\<lparr>outputs := [ro_down, ro_ok]\<rparr>) \<noteq> [] \<and>
   out_Close (ro_output ro_down) = Some ''busy'' \<and>
   fst (Close (box_Agent\<lparr>outputs := [ro_down, ro_ok]\<rparr>)) =
     [CloseCall ''kafka'', CloseCall ''influxdb''] \<and>
   snd (Close (box_Agent\<lparr>outputs := [ro_down, ro_ok]\<rparr>)) = None"
  using Close_returns_last_error [of "box_Agent\<lparr>outputs := [ro_down, ro_ok]\<rparr>"]
  by (simp add: ro_down_def ro_ok_def sink_down_def sink_ok_def)

section \<open>flush\<close>

lemma flush_loop_map:
  "flush_loop points ros = map (\<lambda>ro. Go (WriteOutputTask (ro_name ro) points)) ros"
  by (induction ros) auto

lemma writer_tasks_spawned:
  "writer_tasks (map (\<lambda>ro. Go (WriteOutputTask (ro_name ro) points)) ros) =
     map (\<lambda>ro. (ro_name ro, points)) ros"
  by (induction ros) (simp_all add: writer_tasks_def)

lemma count_writes_spawned:
  "count_writes (map (\<lambda>ro. Go (WriteOutputTask (ro_name ro) points)) ros) = 0"
  by (induction ros) (simp_all add: count_writes_def)

text \<open>
  C8. A flush of an empty point list does nothing: no writer task is started and no
  \<open>Write\<close> is called, and a flush tick of the flusher on an empty buffer leaves no event.
  A flush of a non-empty list starts exactly one writer task per configured sink, in
  configuration order, each with the whole list; \<open>flush\<close> itself calls no \<open>Write\<close>.
\<close>

theorem flush_dispatch:
  "flush a [] = [] \<and>
   (points \<noteq> [] \<longrightarrow>
      flush a points = map (\<lambda>ro. Go (WriteOutputTask (ro_name ro) points)) (outputs a) \<and>
      writer_tasks (flush a points) = map (\<lambda>ro. (ro_name ro, points)) (outputs a) \<and>
      count_writes (flush a points) = 0) \<and>
   flusher_loop a (FTick # rest) [] = flusher_loop a rest []"
  by (simp add: flush_def flush_loop_map writer_tasks_spawned count_writes_spawned)

theorem flush_dispatch_witness:
  "[pt_one] \<noteq> [] \<and>
   flush (box_Agent\<lparr>outputs := [ro_ok, ro_down]\<rparr>) [pt_one] =
     [Go (WriteOutputTask ''influxdb'' [pt_one]), Go (WriteOutputTask ''kafka'' [pt_one])] \<and>
   flush (box_Agent\<lparr>outputs := [ro_ok, ro_down]\<rparr>) [] = [] \<and>
   fst (flusher (box_Agent\<lparr>outputs := [ro_ok, ro_down]\<rparr>) [FTick, FTick]) = [Sleep 100000000]"
  using flush_dispatch [of "box_Agent\<lparr>outputs := [ro_ok, ro_down]\<rparr>" "[pt_one]" "[FTick]"]
  by (simp add: ro_down_def ro_ok_def flusher_def box_Agent_def default_Agent_def Second_def
      Millisecond_def flush_def)

section \<open>Connect\<close>

lemma Connect_loop_connected_head:
  "connects r \<Longrightarrow>
     snd (Connect_loop dbg (r # ros)) = snd (Connect_loop dbg ros) \<and>
     actions (fst (Connect_loop dbg (r # ros))) =
       connect_attempts r @ actions (fst (Connect_loop dbg ros))"
  by (auto simp: connects_def connect_attempts_def actions_def case_prod_beta Let_def
      split: option.splits)

lemma Connect_loop_connected_prefix:
  "\<forall>r\<in>set pre. connects r \<Longrightarrow>
     snd (Connect_loop dbg (pre @ ros)) = snd (Connect_loop dbg ros) \<and>
     actions (fst (Connect_loop dbg (pre @ ros))) =
       concat (map connect_attempts pre) @ actions (fst (Connect_loop dbg ros))"
proof (induction pre)
  case Nil
  then show ?case by simp
next
  case (Cons r pre)
  then have ih:
    "snd (Connect_loop dbg (pre @ ros)) = snd (Connect_loop dbg ros)"
    "actions (fst (Connect_loop dbg (pre @ ros))) =
       concat (map connect_attempts pre) @ actions (fst (Connect_loop dbg ros))"
    by simp_all
  from Cons.prems have "connects r" by simp
  from Connect_loop_connected_head [OF this, of dbg "pre @ ros"] ih
  show ?case by simp
qed

lemma Connect_loop_second_failure:
  "out_Connect (ro_output ro) 0 = Some e0 \<Longrightarrow> out_Connect (ro_output ro) 1 = Some e1 \<Longrightarrow>
     snd (Connect_loop dbg (ro # post)) = Some e1 \<and>
     actions (fst (Connect_loop dbg (ro # post))) = connect_attempts ro"
  by (simp add: connect_attempts_def actions_def Let_def)

text \<open>
  C5. \<open>Connect\<close> visits the sinks in order. A sink whose first \<open>Connect\<close> fails is retried
  exactly once, after a sleep of 15 seconds. When the retry fails too, \<open>Connect\<close> returns
  the retry's error and touches no later sink. When every sink connects at its first or
  second attempt, \<open>Connect\<close> returns \<open>nil\<close>, having gone through all sinks. (\<open>actions\<close>
  drops the log lines of a trace.)
\<close>

theorem Connect_retries_once:
  "((\<forall>r\<in>set (outputs a). connects r) \<longrightarrow>
      snd (Connect a) = None \<and>
      actions (fst (Connect a)) = concat (map connect_attempts (outputs a))) \<and>
   (outputs a = pre @ ro # post \<and> (\<forall>r\<in>set pre. connects r) \<and>
    out_Connect (ro_output ro) 0 = Some e0 \<and> out_Connect (ro_output ro) 1 = Some e1 \<longrightarrow>
      snd (Connect a) = Some e1 \<and>
      actions (fst (Connect a)) =
        concat (map connect_attempts pre) @
        [ConnectCall (ro_name ro), Sleep (15 * Second), ConnectCall (ro_name ro)])"
proof (intro conjI impI)
  assume all: "\<forall>r\<in>set (outputs a). connects r"
  from Connect_loop_connected_prefix [OF all, of "Debug a" "[]"]
  show "snd (Connect a) = None"
    and "actions (fst (Connect a)) = concat (map connect_attempts (outputs a))"
    by (simp_all add: Connect_def actions_def)
next
  assume h: "outputs a = pre @ ro # post \<and> (\<forall>r\<in>set pre. connects r) \<and>
    out_Connect (ro_output ro) 0 = Some e0 \<and> out_Connect (ro_output ro) 1 = Some e1"
  then have pre: "\<forall>r\<in>set pre. connects r" by simp
  from h have fail: "snd (Connect_loop (Debug a) (ro # post)) = Some e1"
    "actions (fst (Connect_loop (Debug a) (ro # post))) = connect_attempts ro"
    using Connect_loop_second_failure [of ro e0 e1 "Debug a" post] by simp_all
  from h have att: "connect_attempts ro =
      [ConnectCall (ro_name ro), Sleep (15 * Second), ConnectCall (ro_name ro)]"
    by (simp add: connect_attempts_def)
  from Connect_loop_connected_prefix [OF pre, of "Debug a" "ro # post"] h fail att
  show "snd (Connect a) = Some e1"
    and "actions (fst (Connect a)) =
        concat (map connect_attempts pre) @
        [ConnectCall (ro_name ro), Sleep (15 * Second), ConnectCall (ro_name ro)]"
    by (simp_all add: Connect_def)
qed

theorem Connect_retries_once_witness:
  "connects ro_flaky \<and> connects ro_ok \<and> \<not> connects ro_down \<and>
   Connect (box_Agent\<lparr>outputs := [ro_flaky, ro_ok]\<rparr>) =
     ([ConnectCall ''opentsdb'',
       Log ''Failed to connect to output %s, retrying in 15s\<newline>'' [ArgStr ''opentsdb''],
       Sleep 15000000000, ConnectCall ''opentsdb'', ConnectCall ''influxdb''], None) \<and>
   outputs (box_Agent\<lparr>outputs := [ro_flaky, ro_down, ro_ok]\<rparr>) = [ro_flaky] @ ro_down # [ro_ok] \<and>
   out_Connect (ro_output ro_down) 0 = Some ''refused'' \<and>
   out_Connect (ro_output ro_down) 1 = Some ''refused'' \<and>
   snd (Connect (box_Agent\<lparr>outputs := [ro_flaky, ro_down, ro_ok]\<rparr>)) = Some ''refused'' \<and>
   actions (fst (Connect (box_Agent\<lparr>outputs := [ro_flaky, ro_down, ro_ok]\<rparr>))) =
     [ConnectCall ''opentsdb'', Sleep 15000000000, ConnectCall ''opentsdb'',
      ConnectCall ''kafka'', Sleep 15000000000, ConnectCall ''kafka'']"
  using Connect_retries_once [of "box_Agent\<lparr>outputs := [ro_flaky, ro_ok]\<rparr>" "[]" ro_ok "[]" "[]" "[]"]
    Connect_retries_once [of "box_Agent\<lparr>outputs := [ro_flaky, ro_down, ro_ok]\<rparr>"
      "[ro_flaky]" ro_down "[ro_ok]" "''refused''" "''refused''"]
  by (simp add: connects_def connect_attempts_def ro_flaky_def ro_ok_def ro_down_def
      sink_flaky_def sink_ok_def sink_down_def Connect_def box_Agent_def default_Agent_def
      Second_def Millisecond_def)

section \<open>writeOutput\<close>

lemma count_writes_Cons:
  "count_writes (e # tr) = (if is_write e then Suc (count_writes tr) else count_writes tr)"
  by (simp add: count_writes_def)

lemma count_writes_Nil: "count_writes [] = 0"
  by (simp add: count_writes_def)

lemma count_writes_append: "count_writes (xs @ ys) = count_writes xs + count_writes ys"
  by (simp add: count_writes_def)

lemma count_writes_retry_round: "count_writes (retry_round a points ro e) = 1"
  by (simp add: retry_round_def count_writes_def)

lemma count_writes_rounds:
  "count_writes (concat (map (\<lambda>k. retry_round a points ro (e k)) ks)) = length ks"
  by (induction ks) (simp_all add: count_writes_append count_writes_retry_round, simp add: count_writes_def)




lemma writeOutput_loop_shutdown:
  "0 \<le> r \<Longrightarrow> nat r \<le> Suc k \<Longrightarrow> \<forall>j\<le>k. out_Write (ro_output ro) j = Some (e j) \<Longrightarrow>
   \<forall>j\<le>k. \<not> sd j \<Longrightarrow> int k < FlushRetries a \<Longrightarrow> sd (Suc k) \<Longrightarrow>
   writeOutput_loop a points ro sd r =
     concat (map (\<lambda>j. retry_round a points ro (e j)) [nat r..<Suc k]) @
     [WriteCall (ro_name ro) points]"
proof (induction a points ro sd r rule: writeOutput_loop.induct)
  case (1 a points ro sd r)
  show ?case
  proof (cases "nat r = Suc k")
    case True
    with "1.prems" show ?thesis
      by (subst writeOutput_loop.simps) simp
  next
    case False
    with "1.prems" have le: "nat r \<le> k" by simp
    with "1.prems" have w: "out_Write (ro_output ro) (nat r) = Some (e (nat r))"
      and s: "\<not> sd (nat r)" and lt: "r < FlushRetries a"
      by auto
    from le "1.prems" have le': "nat (r + 1) \<le> Suc k" by simp
    from w s lt le' "1.prems" have ih: "writeOutput_loop a points ro sd (r + 1) =
        concat (map (\<lambda>j. retry_round a points ro (e j)) [nat (r + 1)..<Suc k]) @
        [WriteCall (ro_name ro) points]"
      by (intro "1.IH") auto
    from le "1.prems" have upt: "[nat r..<Suc k] = nat r # [nat (r + 1)..<Suc k]"
      by (simp add: upt_conv_Cons nat_add_distrib del: upt_Suc)
    from w s lt show ?thesis
      by (subst writeOutput_loop.simps) (simp add: ih upt retry_round_def del: upt_Suc)
  qed
qed





lemma writeOutput_loop_sleeps:
  "sleep_then_write (writeOutput_loop a points ro sd r) \<and>
   (\<exists>tr. writeOutput_loop a points ro sd r = WriteCall (ro_name ro) points # tr)"
proof (induction a points ro sd r rule: writeOutput_loop.induct)
  case (1 a points ro sd r)
  show ?case
  proof (cases "\<not> sd (nat r) \<and> out_Write (ro_output ro) (nat r) \<noteq> None \<and> r < FlushRetries a")
    case True
    then obtain e where e: "out_Write (ro_output ro) (nat r) = Some e" by auto
    from True e have ih: "sleep_then_write (writeOutput_loop a points ro sd (r + 1)) \<and>
        (\<exists>tr. writeOutput_loop a points ro sd (r + 1) = WriteCall (ro_name ro) points # tr)"
      by (intro "1.IH") auto
    then obtain tr where tr: "writeOutput_loop a points ro sd (r + 1) =
        WriteCall (ro_name ro) points # tr" by blast
    from ih have st: "sleep_then_write (WriteCall (ro_name ro) points # tr)"
      by (simp add: tr)
    from True e st show ?thesis
      by (subst (1 2) writeOutput_loop.simps) (simp add: tr)
  next
    case False
    then show ?thesis
      by (subst (1 2) writeOutput_loop.simps) (auto simp: Let_def split: option.splits)
  qed
qed

text \<open>
  C2, in the form that holds of the code. The retry sleep is not interrupted, and the loop calls \<open>Write\<close> before it
  looks at the shutdown channel. When the attempts \<open>0..k\<close> have failed with retries left,
  shutdown was not yet signalled at the \<open>select\<close> after attempt \<open>k\<close> and is signalled when
  the next \<open>select\<close> runs (so it came during the sleep or during the next \<open>Write\<close>), the
  writer makes exactly one more \<open>Write\<close> attempt after the sleep and then returns, whatever
  the result of that attempt, with no log line, sleep or further attempt. Whatever the
  sink and the shutdown channel do, every sleep of the writer is directly followed by a
  \<open>Write\<close>.
\<close>

theorem writeOutput_shutdown_in_sleep:
  "sleep_then_write (writeOutput a points ro sd) \<and>
   ((\<forall>j\<le>k. out_Write (ro_output ro) j = Some (e j)) \<and> (\<forall>j\<le>k. \<not> sd j) \<and>
    int k < FlushRetries a \<and> sd (Suc k) \<longrightarrow>
      writeOutput a points ro sd =
        concat (map (\<lambda>j. retry_round a points ro (e j)) [0..<Suc k]) @
        [WriteCall (ro_name ro) points] \<and>
      count_writes (writeOutput a points ro sd) = Suc k + 1)"
proof (intro conjI impI)
  from writeOutput_loop_sleeps [of a points ro sd 0]
  show "sleep_then_write (writeOutput a points ro sd)"
    by (simp add: writeOutput_def)
next
  assume h: "(\<forall>j\<le>k. out_Write (ro_output ro) j = Some (e j)) \<and> (\<forall>j\<le>k. \<not> sd j) \<and>
    int k < FlushRetries a \<and> sd (Suc k)"
  from writeOutput_loop_shutdown [of 0 k ro e sd a points] h
  show tr: "writeOutput a points ro sd =
     concat (map (\<lambda>j. retry_round a points ro (e j)) [0..<Suc k]) @
     [WriteCall (ro_name ro) points]"
    by (simp add: writeOutput_def)
  show "count_writes (writeOutput a points ro sd) = Suc k + 1"
    unfolding tr by (simp add: count_writes_append count_writes_rounds count_writes_Cons
        count_writes_Nil del: upt_Suc)
qed

theorem writeOutput_shutdown_in_sleep_witness:
  "out_Write (ro_output ro_down) 0 = Some ''down'' \<and> \<not> after_first 0 \<and>
   int 0 < FlushRetries box_Agent \<and> after_first (Suc 0) \<and>
   sleep_then_write (writeOutput box_Agent [pt_one] ro_down after_first) \<and>
   writeOutput box_Agent [pt_one] ro_down after_first =
     [WriteCall ''kafka'' [pt_one],
      Log ''Error in output [%s]: %s, retrying in %s''
        [ArgStr ''kafka'', ArgStr ''down'', ArgDur 10000000000],
      Sleep 10000000000,
      WriteCall ''kafka'' [pt_one]]"
  using writeOutput_shutdown_in_sleep [of box_Agent "[pt_one]" ro_down after_first 0 "\<lambda>k. ''down''"]
  by (simp add: ro_down_def sink_down_def after_first_def box_Agent_def
      default_Agent_def Second_def Millisecond_def retry_round_def)

text \<open>
  Shutdown is signalled after the first \<open>select\<close>, while the writer sleeps: the trace has a
  \<open>Write\<close> after the sleep.
\<close>

theorem writeOutput_write_after_sleep_counterexample:
  "\<not> after_first 0 \<and> after_first 1 \<and>
   count_writes (after_first_sleep (writeOutput box_Agent [pt_one] ro_down after_first)) = 1"
  by (simp add: writeOutput_def writeOutput_loop.simps ro_down_def sink_down_def after_first_def
      box_Agent_def default_Agent_def count_writes_def)

section \<open>Gathering: gatherParallel, gatherSeparate, Run and Test\<close>

lemma gathered_append: "gathered (xs @ ys) = gathered xs @ gathered ys"
  by (simp add: gathered_def)

lemma gathered_gather_once: "gathered (gather_once a p k) = [rp_name p]"
  by (cases "plg_Gather (rp_plugin p) k") (simp_all add: gathered_def gather_once_def)


lemma gatherParallel_loop_eq:
  "gatherParallel_loop a k ps c =
     (concat (map (\<lambda>p. gather_once a p k) (filter zero_interval ps)),
      c + int (length (filter zero_interval ps)))"
  by (induction ps arbitrary: c) (simp_all add: zero_interval_def)

lemma gatherParallel_eq:
  "gatherParallel a k =
     (concat (map (\<lambda>p. gather_once a p k) (filter zero_interval (plugins a))) @
      [Log ''Gathered metrics, (%s interval), from %d plugins in %s\<newline>''
         [ArgDur (Interval a), ArgInt (int (length (filter zero_interval (plugins a)))),
          ArgElapsed]],
      None)"
  by (simp add: gatherParallel_def gatherParallel_loop_eq)


lemma separately_started_append:
  "separately_started (xs @ ys) = separately_started xs @ separately_started ys"
  by (simp add: separately_started_def)

lemma separately_started_gather_once: "separately_started (gather_once a p k) = []"
  by (cases "plg_Gather (rp_plugin p) k") (simp_all add: separately_started_def gather_once_def)

lemma separately_started_passes:
  "separately_started (concat (map (\<lambda>p. gather_once a p k) ps)) = []"
  by (induction ps) (simp_all add: separately_started_append separately_started_gather_once,
      simp add: separately_started_def)

lemma separately_started_gatherParallel: "separately_started (fst (gatherParallel a k)) = []"
  by (simp add: gatherParallel_eq separately_started_append separately_started_passes,
      simp add: separately_started_def)



lemma gatherSeparate_loop_eq:
  "snd (gatherSeparate_loop a p sel k) = (if Shutdown \<in> set sel then Returned None else Blocked) \<and>
   gathered (fst (gatherSeparate_loop a p sel k)) = replicate (passes sel) (rp_name p)"
proof (induction sel arbitrary: k)
  case Nil
  show ?case
    by (subst (1 2) gatherSeparate_loop.simps)
      (simp add: passes_def gathered_append gathered_gather_once, simp add: gathered_def)
next
  case (Cons s sel)
  show ?case
  proof (cases s)
    case Shutdown
    then show ?thesis
      by (subst (1 2) gatherSeparate_loop.simps)
        (simp add: passes_def gathered_append gathered_gather_once, simp add: gathered_def)
  next
    case Tick
    with Cons [of "Suc k"] show ?thesis
      by (subst (1 2) gatherSeparate_loop.simps)
        (simp add: passes_def case_prod_beta gathered_append gathered_gather_once,
          simp add: gathered_def)
  qed
qed



















lemma passes_simps:
  "passes [] = 1" "passes (Shutdown # sel) = 1" "passes (Tick # sel) = Suc (passes sel)"
  by (simp_all add: passes_def)

lemma gatherSeparate_loop_trace:
  "fst (gatherSeparate_loop a p sel k) =
     concat (map (\<lambda>j. gather_once a p j @ [separate_summary p]) [k..<k + passes sel])"
proof (induction sel arbitrary: k)
  case Nil
  show ?case
    by (subst gatherSeparate_loop.simps) (simp add: passes_simps separate_summary_def)
next
  case (Cons s sel)
  show ?case
  proof (cases s)
    case Shutdown
    then show ?thesis
      by (subst gatherSeparate_loop.simps) (simp add: passes_simps separate_summary_def)
  next
    case Tick
    have upt: "[k..<Suc (k + passes sel)] = k # [Suc k..<Suc (k + passes sel)]"
      by (simp add: upt_conv_Cons del: upt_Suc)
    from Tick Cons [of "Suc k"] show ?thesis
      by (subst gatherSeparate_loop.simps)
        (simp add: passes_simps upt case_prod_beta separate_summary_def del: upt_Suc)
  qed
qed

lemma error_line_in_pass:
  "plg_Gather (rp_plugin p) j = Some err \<Longrightarrow> error_line p err \<in> set (gather_once a p j)"
  by (simp add: gather_once_def error_line_def)

lemma error_line_separate:
  "0 < cfg_Interval (rp_config p) \<Longrightarrow> j < passes sel \<Longrightarrow>
   plg_Gather (rp_plugin p) j = Some err \<Longrightarrow>
   error_line p err \<in> set (fst (gatherSeparate a p sel))"
  using error_line_in_pass [of p j err a]
  by (auto simp: gatherSeparate_def gatherSeparate_loop_trace)

lemma error_line_parallel:
  "p \<in> set (plugins a) \<Longrightarrow> zero_interval p \<Longrightarrow> plg_Gather (rp_plugin p) k = Some err \<Longrightarrow>
   error_line p err \<in> set (fst (gatherParallel a k))"
  using error_line_in_pass [of p k err a]
  by (auto simp: gatherParallel_eq)

text \<open>
  C7. An error of a collector's \<open>Gather\<close> is logged and dropped. \<open>gatherParallel\<close> returns
  \<open>nil\<close> in every case; its trace holds the pass of every zero-interval plugin, whatever
  the passes return, and the summary line comes after all of them. \<open>gatherSeparate\<close> never
  returns an error. With a positive interval, so that its ticker exists, it returns \<open>nil\<close>
  when shutdown is chosen and otherwise keeps waiting, and it calls \<open>Gather\<close> once at entry
  and once more for every tick, whatever the calls return. In both modes the error of a
  \<open>Gather\<close> call is in the trace as a log line: the trace of \<open>gatherSeparate\<close> is, pass
  after pass, the \<open>Gather\<close> call, the error line if the call failed, and the summary line.
\<close>

theorem gather_errors_swallowed:
  "snd (gatherParallel a k) = None \<and>
   fst (gatherParallel a k) =
     concat (map (\<lambda>p. gather_once a p k) (filter zero_interval (plugins a))) @
     [Log ''Gathered metrics, (%s interval), from %d plugins in %s\<newline>''
        [ArgDur (Interval a), ArgInt (int (length (filter zero_interval (plugins a)))),
         ArgElapsed]] \<and>
   (plg_Gather (rp_plugin p) k = Some err \<longrightarrow>
      gather_once a p k =
        [GatherCall (rp_name p) (gather_acc a p),
         Log ''Error in plugin [%s]: %s'' [ArgStr (rp_name p), ArgStr err]]) \<and>
   snd (gatherSeparate a p sel) \<noteq> Returned (Some err') \<and>
   (0 < cfg_Interval (rp_config p) \<longrightarrow>
      snd (gatherSeparate a p sel) = (if Shutdown \<in> set sel then Returned None else Blocked) \<and>
      gathered (fst (gatherSeparate a p sel)) = replicate (passes sel) (rp_name p)) \<and>
   (p \<in> set (plugins a) \<and> zero_interval p \<and> plg_Gather (rp_plugin p) k = Some err \<longrightarrow>
      error_line p err \<in> set (fst (gatherParallel a k))) \<and>
   (0 < cfg_Interval (rp_config p) \<longrightarrow>
      fst (gatherSeparate a p sel) =
        concat (map (\<lambda>j. gather_once a p j @ [separate_summary p]) [0..<passes sel])) \<and>
   (0 < cfg_Interval (rp_config p) \<and> j < passes sel \<and>
    plg_Gather (rp_plugin p) j = Some err \<longrightarrow>
      error_line p err \<in> set (fst (gatherSeparate a p sel)))"
proof -
  have old: "snd (gatherParallel a k) = None \<and>
   fst (gatherParallel a k) =
     concat (map (\<lambda>p. gather_once a p k) (filter zero_interval (plugins a))) @
     [Log ''Gathered metrics, (%s interval), from %d plugins in %s\<newline>''
        [ArgDur (Interval a), ArgInt (int (length (filter zero_interval (plugins a)))),
         ArgElapsed]] \<and>
   (plg_Gather (rp_plugin p) k = Some err \<longrightarrow>
      gather_once a p k =
        [GatherCall (rp_name p) (gather_acc a p),
         Log ''Error in plugin [%s]: %s'' [ArgStr (rp_name p), ArgStr err]]) \<and>
   snd (gatherSeparate a p sel) \<noteq> Returned (Some err') \<and>
   (0 < cfg_Interval (rp_config p) \<longrightarrow>
      snd (gatherSeparate a p sel) = (if Shutdown \<in> set sel then Returned None else Blocked) \<and>
      gathered (fst (gatherSeparate a p sel)) = replicate (passes sel) (rp_name p))"
    by (simp add: gatherParallel_eq gather_once_def gatherSeparate_def gatherSeparate_loop_eq)
  have par: "p \<in> set (plugins a) \<and> zero_interval p \<and> plg_Gather (rp_plugin p) k = Some err \<longrightarrow>
      error_line p err \<in> set (fst (gatherParallel a k))"
    using error_line_parallel [of p a k err] by blast
  have tr: "0 < cfg_Interval (rp_config p) \<longrightarrow>
      fst (gatherSeparate a p sel) =
        concat (map (\<lambda>j. gather_once a p j @ [separate_summary p]) [0..<passes sel])"
    using gatherSeparate_loop_trace [of a p sel 0] by (simp add: gatherSeparate_def)
  have sep: "0 < cfg_Interval (rp_config p) \<and> j < passes sel \<and>
    plg_Gather (rp_plugin p) j = Some err \<longrightarrow>
      error_line p err \<in> set (fst (gatherSeparate a p sel))"
    using error_line_separate [of p j sel err a] by blast
  from old par tr sep show ?thesis by blast
qed

theorem gather_errors_swallowed_witness:
  "plg_Gather (rp_plugin rp_disk) 0 = Some ''no data'' \<and>
   gatherParallel (box_Agent\<lparr>plugins := [rp_disk, rp_mem]\<rparr>) 0 =
     ([GatherCall ''disk'' (gather_acc (box_Agent\<lparr>plugins := [rp_disk, rp_mem]\<rparr>) rp_disk),
       Log ''Error in plugin [%s]: %s'' [ArgStr ''disk'', ArgStr ''no data''],
       GatherCall ''mem'' (gather_acc (box_Agent\<lparr>plugins := [rp_disk, rp_mem]\<rparr>) rp_mem),
       Log ''Gathered metrics, (%s interval), from %d plugins in %s\<newline>''
         [ArgDur 10000000000, ArgInt 2, ArgElapsed]], None) \<and>
   0 < cfg_Interval (rp_config rp_ping) \<and>
   (\<forall>k. plg_Gather (rp_plugin rp_ping) k = Some ''no data'') \<and>
   snd (gatherSeparate box_Agent rp_ping [Tick, Tick, Shutdown]) = Returned None \<and>
   gathered (fst (gatherSeparate box_Agent rp_ping [Tick, Tick, Shutdown])) =
     [''ping'', ''ping'', ''ping''] \<and>
   snd (gatherSeparate box_Agent rp_ping [Tick, Tick]) = Blocked \<and>
   rp_disk \<in> set (plugins (box_Agent\<lparr>plugins := [rp_disk, rp_mem]\<rparr>)) \<and> zero_interval rp_disk \<and>
   error_line rp_disk ''no data''
     \<in> set (fst (gatherParallel (box_Agent\<lparr>plugins := [rp_disk, rp_mem]\<rparr>) 0)) \<and>
   1 < passes [Tick, Shutdown] \<and>
   fst (gatherSeparate box_Agent rp_ping [Tick, Shutdown]) =
     [GatherCall ''ping'' (gather_acc box_Agent rp_ping),
      Log ''Error in plugin [%s]: %s'' [ArgStr ''ping'', ArgStr ''no data''],
      Log ''Gathered metrics, (separate %s interval), from %s in %s\<newline>''
        [ArgDur 10000000000, ArgStr ''ping'', ArgElapsed],
      GatherCall ''ping'' (gather_acc box_Agent rp_ping),
      Log ''Error in plugin [%s]: %s'' [ArgStr ''ping'', ArgStr ''no data''],
      Log ''Gathered metrics, (separate %s interval), from %s in %s\<newline>''
        [ArgDur 10000000000, ArgStr ''ping'', ArgElapsed]] \<and>
   error_line rp_ping ''no data'' \<in> set (fst (gatherSeparate box_Agent rp_ping [Tick, Shutdown]))"
proof -
  let ?a = "box_Agent\<lparr>plugins := [rp_disk, rp_mem]\<rparr>"
  note defs = rp_mem_def rp_ping_def rp_disk_def collector_ok_def collector_failing_def
    box_Agent_def default_Agent_def zero_interval_def passes_def gather_once_def
    Second_def Millisecond_def error_line_def separate_summary_def
  have pos: "0 < cfg_Interval (rp_config rp_ping)" by (simp add: defs)
  have dsk: "rp_disk \<in> set (plugins ?a) \<and> zero_interval rp_disk \<and>
      plg_Gather (rp_plugin rp_disk) 0 = Some ''no data''"
    by (simp add: defs)
  have png: "0 < cfg_Interval (rp_config rp_ping) \<and> 1 < passes [Tick, Shutdown] \<and>
      plg_Gather (rp_plugin rp_ping) 1 = Some ''no data''"
    by (simp add: defs)
  note t1 = gather_errors_swallowed [where a = ?a and k = 0 and p = rp_disk
      and err = "''no data''"]
  from t1 have r1: "snd (gatherParallel ?a 0) = None" by blast
  from t1 have r2: "fst (gatherParallel ?a 0) =
     concat (map (\<lambda>p. gather_once ?a p 0) (filter zero_interval (plugins ?a))) @
     [Log ''Gathered metrics, (%s interval), from %d plugins in %s\<newline>''
        [ArgDur (Interval ?a), ArgInt (int (length (filter zero_interval (plugins ?a)))),
         ArgElapsed]]" by blast
  from t1 dsk have r3: "error_line rp_disk ''no data'' \<in> set (fst (gatherParallel ?a 0))"
    by blast
  note t2 = gather_errors_swallowed [where a = box_Agent and p = rp_ping
      and sel = "[Tick, Tick, Shutdown]"]
  from t2 pos have r4: "snd (gatherSeparate box_Agent rp_ping [Tick, Tick, Shutdown]) =
      (if Shutdown \<in> set [Tick, Tick, Shutdown] then Returned None else Blocked)"
    and r5: "gathered (fst (gatherSeparate box_Agent rp_ping [Tick, Tick, Shutdown])) =
      replicate (passes [Tick, Tick, Shutdown]) (rp_name rp_ping)"
    by blast+
  note t3 = gather_errors_swallowed [where a = box_Agent and p = rp_ping and sel = "[Tick, Tick]"]
  from t3 pos have r6: "snd (gatherSeparate box_Agent rp_ping [Tick, Tick]) =
      (if Shutdown \<in> set [Tick, Tick] then Returned None else Blocked)"
    by blast
  note t4 = gather_errors_swallowed [where a = box_Agent and p = rp_ping
      and sel = "[Tick, Shutdown]" and j = 1 and err = "''no data''"]
  from t4 pos have r7: "fst (gatherSeparate box_Agent rp_ping [Tick, Shutdown]) =
      concat (map (\<lambda>j. gather_once box_Agent rp_ping j @ [separate_summary rp_ping])
        [0..<passes [Tick, Shutdown]])"
    by blast
  from t4 png have r8: "error_line rp_ping ''no data''
      \<in> set (fst (gatherSeparate box_Agent rp_ping [Tick, Shutdown]))"
    by blast
  have e1: "gatherParallel ?a 0 = (fst (gatherParallel ?a 0), snd (gatherParallel ?a 0))"
    by simp
  show ?thesis
    apply (subst e1)
    unfolding r1 r2 r4 r5 r6 r7
    using r3 r8
    by (simp add: defs upt_conv_Cons numeral_2_eq_2 numeral_3_eq_3)
qed

lemma handed_tags_append: "handed_tags (xs @ ys) = handed_tags xs @ handed_tags ys"
  by (simp add: handed_tags_def)

lemma handed_tags_gather_once: "handed_tags (gather_once a p k) = [Tags a]"
  by (cases "plg_Gather (rp_plugin p) k")
    (simp_all add: handed_tags_def gather_once_def gather_acc_def SetDefaultTags_def)

lemma handed_tags_passes:
  "handed_tags (concat (map (\<lambda>p. gather_once a p k) ps)) = replicate (length ps) (Tags a)"
  by (induction ps) (simp_all add: handed_tags_append handed_tags_gather_once,
      simp add: handed_tags_def)

lemma gatherParallel_default_tags:
  "handed_tags (fst (gatherParallel a k)) =
     replicate (length (filter zero_interval (plugins a))) (Tags a)"
  by (simp add: gatherParallel_eq handed_tags_append handed_tags_passes,
      simp add: handed_tags_def)

lemma gatherSeparate_loop_default_tags:
  "handed_tags (fst (gatherSeparate_loop a p sel k)) = replicate (passes sel) (Tags a)"
proof (induction sel arbitrary: k)
  case Nil
  show ?case
    by (subst gatherSeparate_loop.simps)
      (simp add: passes_def handed_tags_append handed_tags_gather_once, simp add: handed_tags_def)
next
  case (Cons s sel)
  show ?case
  proof (cases s)
    case Shutdown
    then show ?thesis
      by (subst gatherSeparate_loop.simps)
        (simp add: passes_def handed_tags_append handed_tags_gather_once,
          simp add: handed_tags_def)
  next
    case Tick
    with Cons [of "Suc k"] show ?thesis
      by (subst gatherSeparate_loop.simps)
        (simp add: passes_def case_prod_beta handed_tags_append handed_tags_gather_once,
          simp add: handed_tags_def)
  qed
qed

lemma Test_loop_default_tags: "set (handed_tags (fst (Test_loop ps))) \<subseteq> {Map.empty}"
proof (induction ps)
  case Nil
  show ?case by (simp add: handed_tags_def)
next
  case (Cons p ps)
  have acc: "acc_defaultTags (test_acc p) = Map.empty"
    by (simp add: test_acc_def SetPrefix_def SetDebug_def NewAccumulator_def)
  from Cons show ?case
    by (auto simp: handed_tags_def acc case_prod_beta Let_def split: option.splits if_splits)
qed

text \<open>
  C3. In parallel and in separate mode every accumulator handed to a collector has the
  agent's tag map as its default tags (\<open>gatherParallel_default_tags\<close>,
  \<open>gatherSeparate_loop_default_tags\<close>). \<open>Test\<close> does not call \<open>SetDefaultTags\<close>
  (\<open>Test_loop_default_tags\<close>). For an agent with the tag \<open>host = box\<close> and the collector
  \<open>mem\<close>: the accumulator that \<open>Test\<close> hands over has no default tag, and a point published
  through it without a \<open>host\<close> tag has none afterwards, while the accumulator of
  \<open>gatherParallel\<close> gives the same point \<open>host = box\<close>.
\<close>

theorem Test_hands_no_default_tags:
  "Tags (box_Agent\<lparr>plugins := [rp_mem]\<rparr>) ''host'' = Some ''box'' \<and>
   fst (Test (box_Agent\<lparr>plugins := [rp_mem]\<rparr>)) =
     [Go FlusherTask,
      Print ''* Plugin: %s, Collection 1\<newline>'' [ArgStr ''mem''],
      GatherCall ''mem'' (test_acc rp_mem),
      CloseShutdown] \<and>
   handed_tags (fst (Test (box_Agent\<lparr>plugins := [rp_mem]\<rparr>))) = [Map.empty] \<and>
   pt_tags (acc_point (test_acc rp_mem) ''free'' Map.empty) ''host'' = None \<and>
   handed_tags (fst (gatherParallel (box_Agent\<lparr>plugins := [rp_mem]\<rparr>) 0)) =
     [Tags (box_Agent\<lparr>plugins := [rp_mem]\<rparr>)] \<and>
   pt_tags (acc_point (gather_acc (box_Agent\<lparr>plugins := [rp_mem]\<rparr>) rp_mem) ''free'' Map.empty)
     ''host'' = Some ''box''"
  by (simp add: Test_def rp_mem_def collector_ok_def box_Agent_def default_Agent_def
      handed_tags_def test_acc_def gather_acc_def acc_point_def SetPrefix_def SetDebug_def
      SetDefaultTags_def NewAccumulator_def gatherParallel_def gather_once_def)

section \<open>NewAgent\<close>

text \<open>
  C9, in the form that holds of the code. \<open>NewAgent\<close> asks the operating system for the host name only when the
  configuration left \<open>Hostname\<close> empty: with a configured host name the result does not
  depend on what \<open>os.Hostname()\<close> would return, an error included. It then sets the
  default tag \<open>host\<close> to the agent's host name in every case, overwriting a \<open>host\<close> tag
  that the configuration set; the other tags are kept. After \<open>NewAgent\<close> succeeds the tag
  map holds \<open>host\<close>, with the agent's host name as its value.
\<close>

theorem NewAgent_host_tag:
  "(ApplyAgent config default_Agent = Inr ag \<and> Hostname ag \<noteq> [] \<longrightarrow>
      NewAgent config os = NewAgent config os' \<and>
      (\<exists>a. NewAgent config os = Inr a \<and> Hostname a = Hostname ag)) \<and>
   (ApplyAgent config default_Agent = Inr ag \<and> Hostname ag = [] \<and> os = Inr h \<longrightarrow>
      (\<exists>a. NewAgent config os = Inr a \<and> Hostname a = h)) \<and>
   (NewAgent config os = Inr a \<longrightarrow> Tags a ''host'' = Some (Hostname a)) \<and>
   (NewAgent config os = Inr a \<and> ApplyAgent config default_Agent = Inr ag \<and> t \<noteq> ''host'' \<longrightarrow>
      Tags a t = Tags ag t)"
  by (auto simp: NewAgent_def split: sum.splits if_splits)

theorem NewAgent_host_tag_witness:
  "ApplyAgent cfg_hostname default_Agent = Inr (default_Agent\<lparr>Hostname := ''box''\<rparr>) \<and>
   Hostname (default_Agent\<lparr>Hostname := ''box''\<rparr>) \<noteq> [] \<and>
   NewAgent cfg_hostname (Inl ''no host name'') =
     Inr (default_Agent\<lparr>Hostname := ''box'', Tags := [''host'' \<mapsto> ''box'']\<rparr>) \<and>
   ApplyAgent cfg_base default_Agent = Inr default_Agent \<and>
   Hostname default_Agent = [] \<and>
   NewAgent cfg_base (Inr ''osbox'') =
     Inr (default_Agent\<lparr>Hostname := ''osbox'', Tags := [''host'' \<mapsto> ''osbox'']\<rparr>) \<and>
   ''dc'' \<noteq> ''host''"
  using NewAgent_host_tag [of cfg_hostname "default_Agent\<lparr>Hostname := ''box''\<rparr>"
      "Inl ''no host name''" "Inr ''osbox''" "''osbox''"
      "default_Agent\<lparr>Hostname := ''box'', Tags := [''host'' \<mapsto> ''box'']\<rparr>" "''dc''"]
    NewAgent_host_tag [of cfg_base default_Agent
      "Inr ''osbox''" "Inr ''osbox''" "''osbox''"
      "default_Agent\<lparr>Hostname := ''osbox'', Tags := [''host'' \<mapsto> ''osbox'']\<rparr>" "''dc''"]
  by (simp add: NewAgent_def cfg_hostname_def cfg_base_def default_Agent_def)

text \<open>
  The configuration sets the tag \<open>host = custom\<close> and no host name: the tag of the new
  agent is the host name of the operating system.
\<close>

theorem NewAgent_overwrites_host_tag_counterexample:
  "(case ApplyAgent cfg_host_tag default_Agent of Inl err \<Rightarrow> None | Inr ag \<Rightarrow> Tags ag ''host'')
     = Some ''custom'' \<and>
   (case NewAgent cfg_host_tag (Inr ''osbox'') of Inl err \<Rightarrow> None | Inr a \<Rightarrow> Tags a ''host'')
     = Some ''osbox''"
  by (simp add: NewAgent_def cfg_host_tag_def cfg_base_def default_Agent_def)

section \<open>LoadOutputs and LoadPlugins\<close>

lemma sliceContains_iff: "sliceContains n fs = (n \<in> set fs)"
  by (induction fs) auto

lemma selected_Cons:
  "selected fs (n # ns) = (if n \<in> set fs \<or> fs = [] then n # selected fs ns else selected fs ns)"
  by (simp add: selected_def)

lemma LoadOutputs_loop_result_indep:
  "snd (LoadOutputs_loop fs c R decl a names tr) = snd (LoadOutputs_loop fs c R decl a' names tr')"
proof (induction decl arbitrary: a a' names tr tr')
  case Nil
  show ?case by simp
next
  case (Cons n decl)
  show ?case
  proof (cases "R n")
    case None
    then show ?thesis by simp
  next
    case (Some creator)
    show ?thesis
    proof (cases "sliceContains n fs \<or> fs = []")
      case False
      with Some Cons.IH [of a names tr a' tr'] show ?thesis by simp
    next
      case True
      show ?thesis
      proof (cases "ApplyOutput c n creator")
        case (Inl err)
        with Some True show ?thesis by (simp add: Let_def)
      next
        case (Inr out)
        with Some True Cons.IH show ?thesis by (simp add: Let_def)
      qed
    qed
  qed
qed

lemma LoadOutputs_loop_success:
  "snd (LoadOutputs_loop fs c R decl a names tr) = Inr ns \<Longrightarrow>
     ns = sort (names @ selected fs decl) \<and>
     map ro_name (outputs (fst (fst (LoadOutputs_loop fs c R decl a names tr)))) =
       map ro_name (outputs a) @ selected fs decl"
proof (induction decl arbitrary: a names tr)
  case Nil
  then show ?case by (auto simp: selected_def)
next
  case (Cons n decl)
  show ?case
  proof (cases "R n")
    case None
    with Cons.prems show ?thesis by simp
  next
    case (Some creator)
    show ?thesis
    proof (cases "sliceContains n fs \<or> fs = []")
      case False
      with Some Cons.prems have "snd (LoadOutputs_loop fs c R decl a names tr) = Inr ns" by simp
      from Cons.IH [OF this] Some False show ?thesis
        by (simp add: selected_Cons sliceContains_iff)
    next
      case True
      show ?thesis
      proof (cases "ApplyOutput c n creator")
        case (Inl err)
        with Some True Cons.prems show ?thesis by (simp add: Let_def)
      next
        case (Inr out)
        let ?a = "a\<lparr>outputs := outputs a @ [\<lparr>ro_name = n, ro_output = out\<rparr>]\<rparr>"
        let ?tr = "tr @ (if Debug a then [LogLn [ArgStr ''Output Enabled: '', ArgStr n]] else [])"
        from Some True Inr Cons.prems
        have "snd (LoadOutputs_loop fs c R decl ?a (names @ [n]) ?tr) = Inr ns"
          by (simp add: Let_def)
        from Cons.IH [OF this] Some True Inr show ?thesis
          by (simp add: selected_Cons sliceContains_iff Let_def)
      qed
    qed
  qed
qed

lemma LoadOutputs_loop_unregistered:
  "\<exists>n\<in>set decl. R n = None \<Longrightarrow> \<exists>e. snd (LoadOutputs_loop fs c R decl a names tr) = Inl e"
proof (induction decl arbitrary: a names tr)
  case Nil
  then show ?case by simp
next
  case (Cons n decl)
  show ?case
  proof (cases "R n")
    case None
    then show ?thesis by simp
  next
    case (Some creator)
    with Cons.prems have ex: "\<exists>n\<in>set decl. R n = None" by auto
    note ih = Cons.IH [OF ex]
    show ?thesis
    proof (cases "sliceContains n fs \<or> fs = []")
      case False
      with Some ih [of a names tr] show ?thesis by simp
    next
      case True
      show ?thesis
      proof (cases "ApplyOutput c n creator")
        case (Inl err)
        with Some True show ?thesis by (simp add: Let_def)
      next
        case (Inr out)
        with Some True ih show ?thesis by (simp add: Let_def)
      qed
    qed
  qed
qed

lemma LoadOutputs_loop_first_unregistered:
  "\<forall>m\<in>set pre. output_loads fs c R m \<Longrightarrow> R n = None \<Longrightarrow>
     snd (LoadOutputs_loop fs c R (pre @ n # post) a names tr) =
       Inl (undefined_output n)"
proof (induction pre arbitrary: a names tr)
  case Nil
  then show ?case by simp
next
  case (Cons m pre)
  then have ih: "\<And>a names tr. snd (LoadOutputs_loop fs c R (pre @ n # post) a names tr) =
       Inl (undefined_output n)"
    by simp
  from Cons.prems have ld: "output_loads fs c R m" by simp
  then obtain creator where cr: "R m = Some creator"
    by (auto simp: output_loads_def split: option.splits)
  show ?case
  proof (cases "sliceContains m fs \<or> fs = []")
    case False
    with cr ih [of a names tr] show ?thesis by simp
  next
    case True
    with ld cr obtain out where "ApplyOutput c m creator = Inr out"
      by (auto simp: output_loads_def sliceContains_iff split: sum.splits)
    with cr True ih show ?thesis by (simp add: Let_def)
  qed
qed


lemma LoadPlugins_loop_result_indep:
  "snd (LoadPlugins_loop fs c R decl a names) = snd (LoadPlugins_loop fs c R decl a' names)"
proof (induction decl arbitrary: a a' names)
  case Nil
  show ?case by simp
next
  case (Cons n decl)
  show ?case
  proof (cases "R n")
    case None
    then show ?thesis by simp
  next
    case (Some creator)
    show ?thesis
    proof (cases "sliceContains n fs \<or> fs = []")
      case False
      with Some Cons.IH [of a names a'] show ?thesis by simp
    next
      case True
      show ?thesis
      proof (cases "ApplyPlugin c n creator")
        case (Inl err)
        with Some True show ?thesis by simp
      next
        case (Inr cfg)
        with Some True Cons.IH show ?thesis by simp
      qed
    qed
  qed
qed

lemma LoadPlugins_loop_success:
  "snd (LoadPlugins_loop fs c R decl a names) = Inr ns \<Longrightarrow>
     ns = sort (names @ selected fs decl) \<and>
     map rp_name (plugins (fst (LoadPlugins_loop fs c R decl a names))) =
       map rp_name (plugins a) @ selected fs decl"
proof (induction decl arbitrary: a names)
  case Nil
  then show ?case by (auto simp: selected_def)
next
  case (Cons n decl)
  show ?case
  proof (cases "R n")
    case None
    with Cons.prems show ?thesis by simp
  next
    case (Some creator)
    show ?thesis
    proof (cases "sliceContains n fs \<or> fs = []")
      case False
      with Some Cons.prems have "snd (LoadPlugins_loop fs c R decl a names) = Inr ns" by simp
      from Cons.IH [OF this] Some False show ?thesis
        by (simp add: selected_Cons sliceContains_iff)
    next
      case True
      show ?thesis
      proof (cases "ApplyPlugin c n creator")
        case (Inl err)
        with Some True Cons.prems show ?thesis by simp
      next
        case (Inr cfg)
        let ?a = "a\<lparr>plugins := plugins a @
                    [\<lparr>rp_name = n, rp_plugin = creator, rp_config = cfg\<rparr>]\<rparr>"
        from Some True Inr Cons.prems
        have "snd (LoadPlugins_loop fs c R decl ?a (names @ [n])) = Inr ns"
          by simp
        from Cons.IH [OF this] Some True Inr show ?thesis
          by (simp add: selected_Cons sliceContains_iff)
      qed
    qed
  qed
qed

lemma LoadPlugins_loop_unregistered:
  "\<exists>n\<in>set decl. R n = None \<Longrightarrow> \<exists>e. snd (LoadPlugins_loop fs c R decl a names) = Inl e"
proof (induction decl arbitrary: a names)
  case Nil
  then show ?case by simp
next
  case (Cons n decl)
  show ?case
  proof (cases "R n")
    case None
    then show ?thesis by simp
  next
    case (Some creator)
    with Cons.prems have ex: "\<exists>n\<in>set decl. R n = None" by auto
    note ih = Cons.IH [OF ex]
    show ?thesis
    proof (cases "sliceContains n fs \<or> fs = []")
      case False
      with Some ih [of a names] show ?thesis by simp
    next
      case True
      show ?thesis
      proof (cases "ApplyPlugin c n creator")
        case (Inl err)
        with Some True show ?thesis by simp
      next
        case (Inr cfg)
        with Some True ih show ?thesis by simp
      qed
    qed
  qed
qed

lemma LoadPlugins_loop_first_unregistered:
  "\<forall>m\<in>set pre. plugin_loads fs c R m \<Longrightarrow> R n = None \<Longrightarrow>
     snd (LoadPlugins_loop fs c R (pre @ n # post) a names) = Inl (undefined_plugin n)"
proof (induction pre arbitrary: a names)
  case Nil
  then show ?case by simp
next
  case (Cons m pre)
  then have ih: "\<And>a names. snd (LoadPlugins_loop fs c R (pre @ n # post) a names) =
       Inl (undefined_plugin n)"
    by simp
  from Cons.prems have ld: "plugin_loads fs c R m" by simp
  then obtain creator where cr: "R m = Some creator"
    by (auto simp: plugin_loads_def split: option.splits)
  show ?case
  proof (cases "sliceContains m fs \<or> fs = []")
    case False
    with cr ih [of a names] show ?thesis by simp
  next
    case True
    with ld cr obtain cfg where "ApplyPlugin c m creator = Inr cfg"
      by (auto simp: plugin_loads_def sliceContains_iff split: sum.splits)
    with cr True ih show ?thesis by simp
  qed
qed

lemma LoadOutputs_loop_all_load:
  "\<forall>m\<in>set decl. output_loads fs c R m \<Longrightarrow>
     snd (LoadOutputs_loop fs c R decl a names tr) = Inr (sort (names @ selected fs decl))"
proof (induction decl arbitrary: a names tr)
  case Nil
  show ?case by (simp add: selected_def)
next
  case (Cons m decl)
  then have ih: "\<And>a names tr. snd (LoadOutputs_loop fs c R decl a names tr) =
      Inr (sort (names @ selected fs decl))"
    by simp
  from Cons.prems have ld: "output_loads fs c R m" by simp
  then obtain creator where cr: "R m = Some creator"
    by (auto simp: output_loads_def split: option.splits)
  show ?case
  proof (cases "sliceContains m fs \<or> fs = []")
    case False
    with cr ih [of a names tr] show ?thesis
      by (simp add: selected_Cons sliceContains_iff)
  next
    case True
    with ld cr obtain out where "ApplyOutput c m creator = Inr out"
      by (auto simp: output_loads_def sliceContains_iff split: sum.splits)
    with cr True ih show ?thesis
      by (simp add: Let_def selected_Cons sliceContains_iff)
  qed
qed

lemma LoadOutputs_loop_first_apply_error:
  "\<forall>m\<in>set pre. output_loads fs c R m \<Longrightarrow> R n = Some creator \<Longrightarrow> n \<in> set fs \<or> fs = [] \<Longrightarrow>
   ApplyOutput c n creator = Inl err \<Longrightarrow>
     snd (LoadOutputs_loop fs c R (pre @ n # post) a names tr) = Inl err"
proof (induction pre arbitrary: a names tr)
  case Nil
  then show ?case by (simp add: sliceContains_iff Let_def)
next
  case (Cons m pre)
  then have ih: "\<And>a names tr. snd (LoadOutputs_loop fs c R (pre @ n # post) a names tr) = Inl err"
    by simp
  from Cons.prems have ld: "output_loads fs c R m" by simp
  then obtain cr' where cr: "R m = Some cr'"
    by (auto simp: output_loads_def split: option.splits)
  show ?case
  proof (cases "sliceContains m fs \<or> fs = []")
    case False
    with cr ih [of a names tr] show ?thesis by simp
  next
    case True
    with ld cr obtain out where "ApplyOutput c m cr' = Inr out"
      by (auto simp: output_loads_def sliceContains_iff split: sum.splits)
    with cr True ih show ?thesis by (simp add: Let_def)
  qed
qed

lemma LoadPlugins_loop_all_load:
  "\<forall>m\<in>set decl. plugin_loads fs c R m \<Longrightarrow>
     snd (LoadPlugins_loop fs c R decl a names) = Inr (sort (names @ selected fs decl))"
proof (induction decl arbitrary: a names)
  case Nil
  show ?case by (simp add: selected_def)
next
  case (Cons m decl)
  then have ih: "\<And>a names. snd (LoadPlugins_loop fs c R decl a names) =
      Inr (sort (names @ selected fs decl))"
    by simp
  from Cons.prems have ld: "plugin_loads fs c R m" by simp
  then obtain creator where cr: "R m = Some creator"
    by (auto simp: plugin_loads_def split: option.splits)
  show ?case
  proof (cases "sliceContains m fs \<or> fs = []")
    case False
    with cr ih [of a names] show ?thesis
      by (simp add: selected_Cons sliceContains_iff)
  next
    case True
    with ld cr obtain cfg where "ApplyPlugin c m creator = Inr cfg"
      by (auto simp: plugin_loads_def sliceContains_iff split: sum.splits)
    with cr True ih show ?thesis
      by (simp add: selected_Cons sliceContains_iff)
  qed
qed

lemma LoadPlugins_loop_first_apply_error:
  "\<forall>m\<in>set pre. plugin_loads fs c R m \<Longrightarrow> R n = Some creator \<Longrightarrow> n \<in> set fs \<or> fs = [] \<Longrightarrow>
   ApplyPlugin c n creator = Inl err \<Longrightarrow>
     snd (LoadPlugins_loop fs c R (pre @ n # post) a names) = Inl err"
proof (induction pre arbitrary: a names)
  case Nil
  then show ?case by (simp add: sliceContains_iff)
next
  case (Cons m pre)
  then have ih: "\<And>a names. snd (LoadPlugins_loop fs c R (pre @ n # post) a names) = Inl err"
    by simp
  from Cons.prems have ld: "plugin_loads fs c R m" by simp
  then obtain cr' where cr: "R m = Some cr'"
    by (auto simp: plugin_loads_def split: option.splits)
  show ?case
  proof (cases "sliceContains m fs \<or> fs = []")
    case False
    with cr ih [of a names] show ?thesis by simp
  next
    case True
    with ld cr obtain cfg where "ApplyPlugin c m cr' = Inr cfg"
      by (auto simp: plugin_loads_def sliceContains_iff split: sum.splits)
    with cr True ih show ?thesis by simp
  qed
qed

text \<open>
  C6, in the form that holds of the code. When \<open>LoadOutputs\<close> (and likewise \<open>LoadPlugins\<close>) succeeds, it has
  instantiated exactly the declared names that are in the filter list, or all declared
  names when the filter list is empty, appending them to the agent in declaration order,
  and it returns these names sorted; loading the same configuration again returns the
  same names in the same order. A declared name that is absent from the registry makes
  loading fail, whether the filter selects it or not. The error names the first such
  name, provided the configuration applied to every selected name declared before it;
  otherwise the error of the first \<open>ApplyOutput\<close> (\<open>ApplyPlugin\<close>) that failed is returned:
  loading fails at the first declared name that does not load, with the error of that
  name, and it succeeds when every declared name loads.
\<close>

theorem Load_selected_sorted:
  "(snd (LoadOutputs fs c R a) = Inr ns \<longrightarrow>
      ns = sort (selected fs (OutputsDeclared c)) \<and> sorted ns \<and>
      map ro_name (outputs (fst (fst (LoadOutputs fs c R a)))) =
        map ro_name (outputs a) @ selected fs (OutputsDeclared c) \<and>
      snd (LoadOutputs fs c R (fst (fst (LoadOutputs fs c R a)))) = Inr ns) \<and>
   ((\<exists>n\<in>set (OutputsDeclared c). R n = None) \<longrightarrow> (\<exists>e. snd (LoadOutputs fs c R a) = Inl e)) \<and>
   (OutputsDeclared c = pre @ n # post \<and> (\<forall>m\<in>set pre. output_loads fs c R m) \<and> R n = None \<longrightarrow>
      snd (LoadOutputs fs c R a) = Inl (undefined_output n)) \<and>
   (snd (LoadPlugins fs c P a) = Inr ms \<longrightarrow>
      ms = sort (selected fs (PluginsDeclared c)) \<and> sorted ms \<and>
      map rp_name (plugins (fst (LoadPlugins fs c P a))) =
        map rp_name (plugins a) @ selected fs (PluginsDeclared c) \<and>
      snd (LoadPlugins fs c P (fst (LoadPlugins fs c P a))) = Inr ms) \<and>
   ((\<exists>n\<in>set (PluginsDeclared c). P n = None) \<longrightarrow> (\<exists>e. snd (LoadPlugins fs c P a) = Inl e)) \<and>
   (PluginsDeclared c = pre' @ n' # post' \<and> (\<forall>m\<in>set pre'. plugin_loads fs c P m) \<and>
    P n' = None \<longrightarrow>
      snd (LoadPlugins fs c P a) = Inl (undefined_plugin n')) \<and>
   ((\<forall>m\<in>set (OutputsDeclared c). output_loads fs c R m) \<longrightarrow>
      snd (LoadOutputs fs c R a) = Inr (sort (selected fs (OutputsDeclared c)))) \<and>
   (OutputsDeclared c = pre @ n # post \<and> (\<forall>m\<in>set pre. output_loads fs c R m) \<and>
    R n = Some creator \<and> (n \<in> set fs \<or> fs = []) \<and> ApplyOutput c n creator = Inl err \<longrightarrow>
      snd (LoadOutputs fs c R a) = Inl err) \<and>
   ((\<forall>m\<in>set (PluginsDeclared c). plugin_loads fs c P m) \<longrightarrow>
      snd (LoadPlugins fs c P a) = Inr (sort (selected fs (PluginsDeclared c)))) \<and>
   (PluginsDeclared c = pre' @ n' # post' \<and> (\<forall>m\<in>set pre'. plugin_loads fs c P m) \<and>
    P n' = Some creator' \<and> (n' \<in> set fs \<or> fs = []) \<and>
    ApplyPlugin c n' creator' = Inl err' \<longrightarrow>
      snd (LoadPlugins fs c P a) = Inl err')"
proof (intro conjI impI)
  assume ok: "snd (LoadOutputs fs c R a) = Inr ns"
  then have l: "snd (LoadOutputs_loop fs c R (OutputsDeclared c) a [] []) = Inr ns"
    by (simp add: LoadOutputs_def)
  from LoadOutputs_loop_success [OF l]
  show ns: "ns = sort (selected fs (OutputsDeclared c))"
    and "map ro_name (outputs (fst (fst (LoadOutputs fs c R a)))) =
        map ro_name (outputs a) @ selected fs (OutputsDeclared c)"
    by (simp_all add: LoadOutputs_def)
  show "sorted ns" by (simp add: ns)
  from l LoadOutputs_loop_result_indep
    [of fs c R "OutputsDeclared c" "fst (fst (LoadOutputs fs c R a))" "[]" "[]" a "[]"]
  show "snd (LoadOutputs fs c R (fst (fst (LoadOutputs fs c R a)))) = Inr ns"
    by (simp add: LoadOutputs_def)
next
  assume "\<exists>n\<in>set (OutputsDeclared c). R n = None"
  from LoadOutputs_loop_unregistered [OF this]
  show "\<exists>e. snd (LoadOutputs fs c R a) = Inl e"
    by (simp add: LoadOutputs_def)
next
  assume h: "OutputsDeclared c = pre @ n # post \<and> (\<forall>m\<in>set pre. output_loads fs c R m) \<and>
    R n = None"
  then have "\<forall>m\<in>set pre. output_loads fs c R m" and "R n = None" by simp_all
  from LoadOutputs_loop_first_unregistered [OF this] h
  show "snd (LoadOutputs fs c R a) = Inl (undefined_output n)"
    by (simp add: LoadOutputs_def)
next
  assume ok: "snd (LoadPlugins fs c P a) = Inr ms"
  then have l: "snd (LoadPlugins_loop fs c P (PluginsDeclared c) a []) = Inr ms"
    by (simp add: LoadPlugins_def)
  from LoadPlugins_loop_success [OF l]
  show ms: "ms = sort (selected fs (PluginsDeclared c))"
    and "map rp_name (plugins (fst (LoadPlugins fs c P a))) =
        map rp_name (plugins a) @ selected fs (PluginsDeclared c)"
    by (simp_all add: LoadPlugins_def)
  show "sorted ms" by (simp add: ms)
  from l LoadPlugins_loop_result_indep
    [of fs c P "PluginsDeclared c" "fst (LoadPlugins fs c P a)" "[]" a]
  show "snd (LoadPlugins fs c P (fst (LoadPlugins fs c P a))) = Inr ms"
    by (simp add: LoadPlugins_def)
next
  assume "\<exists>n\<in>set (PluginsDeclared c). P n = None"
  from LoadPlugins_loop_unregistered [OF this]
  show "\<exists>e. snd (LoadPlugins fs c P a) = Inl e"
    by (simp add: LoadPlugins_def)
next
  assume h: "PluginsDeclared c = pre' @ n' # post' \<and> (\<forall>m\<in>set pre'. plugin_loads fs c P m) \<and>
    P n' = None"
  then have "\<forall>m\<in>set pre'. plugin_loads fs c P m" and "P n' = None" by simp_all
  from LoadPlugins_loop_first_unregistered [OF this] h
  show "snd (LoadPlugins fs c P a) = Inl (undefined_plugin n')"
    by (simp add: LoadPlugins_def)
next
  assume "\<forall>m\<in>set (OutputsDeclared c). output_loads fs c R m"
  from LoadOutputs_loop_all_load [OF this]
  show "snd (LoadOutputs fs c R a) = Inr (sort (selected fs (OutputsDeclared c)))"
    by (simp add: LoadOutputs_def)
next
  assume h: "OutputsDeclared c = pre @ n # post \<and> (\<forall>m\<in>set pre. output_loads fs c R m) \<and>
    R n = Some creator \<and> (n \<in> set fs \<or> fs = []) \<and> ApplyOutput c n creator = Inl err"
  then have "\<forall>m\<in>set pre. output_loads fs c R m" and "R n = Some creator"
    and "n \<in> set fs \<or> fs = []" and "ApplyOutput c n creator = Inl err"
    by simp_all
  from LoadOutputs_loop_first_apply_error [OF this] h
  show "snd (LoadOutputs fs c R a) = Inl err"
    by (simp add: LoadOutputs_def)
next
  assume "\<forall>m\<in>set (PluginsDeclared c). plugin_loads fs c P m"
  from LoadPlugins_loop_all_load [OF this]
  show "snd (LoadPlugins fs c P a) = Inr (sort (selected fs (PluginsDeclared c)))"
    by (simp add: LoadPlugins_def)
next
  assume h: "PluginsDeclared c = pre' @ n' # post' \<and> (\<forall>m\<in>set pre'. plugin_loads fs c P m) \<and>
    P n' = Some creator' \<and> (n' \<in> set fs \<or> fs = []) \<and> ApplyPlugin c n' creator' = Inl err'"
  then have "\<forall>m\<in>set pre'. plugin_loads fs c P m" and "P n' = Some creator'"
    and "n' \<in> set fs \<or> fs = []" and "ApplyPlugin c n' creator' = Inl err'"
    by simp_all
  from LoadPlugins_loop_first_apply_error [OF this] h
  show "snd (LoadPlugins fs c P a) = Inl err'"
    by (simp add: LoadPlugins_def)
qed

theorem Load_selected_sorted_witness:
  "snd (LoadOutputs [] cfg_base reg_outputs default_Agent) = Inr [''influxdb'', ''kafka''] \<and>
   map ro_name (outputs (fst (fst (LoadOutputs [] cfg_base reg_outputs default_Agent)))) =
     [''kafka'', ''influxdb''] \<and>
   OutputsDeclared cfg_unknown = [''kafka''] @ ''amqp'' # [''influxdb''] \<and>
   output_loads [] cfg_unknown reg_outputs ''kafka'' \<and>
   reg_outputs ''amqp'' = None \<and>
   snd (LoadOutputs [] cfg_unknown reg_outputs default_Agent) =
     Inl ''Undefined but requested output: amqp'' \<and>
   snd (LoadPlugins [''disk'', ''cpu''] cfg_base reg_plugins default_Agent) =
     Inr [''cpu'', ''disk''] \<and>
   map rp_name (plugins (fst (LoadPlugins [''disk'', ''cpu''] cfg_base reg_plugins default_Agent))) =
     [''cpu'', ''disk''] \<and>
   PluginsDeclared cfg_unknown = [''mem''] @ ''gpu'' # [] \<and>
   plugin_loads [] cfg_unknown reg_plugins ''mem'' \<and>
   reg_plugins ''gpu'' = None \<and>
   snd (LoadPlugins [] cfg_unknown reg_plugins default_Agent) =
     Inl ''Undefined but requested plugin: gpu'' \<and>
   output_loads [] cfg_base reg_outputs ''kafka'' \<and>
   output_loads [] cfg_base reg_outputs ''influxdb'' \<and>
   plugin_loads [''disk'', ''cpu''] cfg_base reg_plugins ''mem'' \<and>
   plugin_loads [''disk'', ''cpu''] cfg_base reg_plugins ''cpu'' \<and>
   plugin_loads [''disk'', ''cpu''] cfg_base reg_plugins ''disk'' \<and>
   OutputsDeclared cfg_bad_url = [] @ ''influxdb'' # [''amqp''] \<and>
   reg_outputs ''influxdb'' = Some sink_ok \<and>
   ApplyOutput cfg_bad_url ''influxdb'' sink_ok = Inl ''bad url'' \<and>
   snd (LoadOutputs [] cfg_bad_url reg_outputs default_Agent) = Inl ''bad url'' \<and>
   PluginsDeclared cfg_bad_interval = [''mem''] @ ''cpu'' # [''disk''] \<and>
   plugin_loads [''cpu''] cfg_bad_interval reg_plugins ''mem'' \<and>
   reg_plugins ''cpu'' = Some collector_ok \<and>
   ApplyPlugin cfg_bad_interval ''cpu'' collector_ok = Inl ''bad interval'' \<and>
   snd (LoadPlugins [''cpu''] cfg_bad_interval reg_plugins default_Agent) = Inl ''bad interval''"
  using Load_selected_sorted [where fs = "[]" and c = cfg_base and R = reg_outputs
      and a = default_Agent and ns = "[''influxdb'', ''kafka'']" and P = reg_plugins]
    Load_selected_sorted [where fs = "[''disk'', ''cpu'']" and c = cfg_base and R = reg_outputs
      and a = default_Agent and P = reg_plugins and ms = "[''cpu'', ''disk'']"]
    Load_selected_sorted [where fs = "[]" and c = cfg_unknown and R = reg_outputs
      and a = default_Agent and pre = "[''kafka'']" and n = "''amqp''" and post = "[''influxdb'']"
      and P = reg_plugins and pre' = "[''mem'']" and n' = "''gpu''" and post' = "[]"]
    Load_selected_sorted [where fs = "[]" and c = cfg_bad_url and R = reg_outputs
      and a = default_Agent and pre = "[]" and n = "''influxdb''" and post = "[''amqp'']"
      and creator = sink_ok and err = "''bad url''" and P = reg_plugins]
    Load_selected_sorted [where fs = "[''cpu'']" and c = cfg_bad_interval and R = reg_outputs
      and a = default_Agent and P = reg_plugins and pre' = "[''mem'']" and n' = "''cpu''"
      and post' = "[''disk'']" and creator' = collector_ok and err' = "''bad interval''"]
  by (simp add: LoadOutputs_def LoadPlugins_def cfg_base_def cfg_unknown_def cfg_bad_url_def
      cfg_bad_interval_def reg_outputs_def reg_plugins_def default_Agent_def output_loads_def
      plugin_loads_def selected_def undefined_output_def undefined_plugin_def)

text \<open>
  \<open>influxdb\<close> is registered but its configuration does not apply; \<open>amqp\<close>, declared after
  it, is not registered. Loading fails with the configuration error, which does not name
  \<open>amqp\<close>.
\<close>

theorem LoadOutputs_earlier_error_counterexample:
  "''amqp'' \<in> set (OutputsDeclared cfg_bad_url) \<and> reg_outputs ''amqp'' = None \<and>
   snd (LoadOutputs [] cfg_bad_url reg_outputs default_Agent) = Inl ''bad url'' \<and>
   snd (LoadOutputs [] cfg_bad_url reg_outputs default_Agent) \<noteq> Inl (undefined_output ''amqp'')"
  by (simp add: LoadOutputs_def cfg_bad_url_def cfg_base_def reg_outputs_def default_Agent_def
      undefined_output_def)

end
